theory Spec2Isabelle
  imports Main
begin

section \<open>Values at run time\<close>

text \<open>
  TypeScript's types are gone at run time. A response body, a record taken from it and
  an error message are whatever JSON value arrived, with \<open>undefined\<close> for a property
  that is not there. An object lists its properties with their values, each name once.
  Numbers are taken as integers: the code only asks whether a value is truthy, and React
  draws a number as a number.
\<close>

datatype jsval =
    JUndefined
  | JNull
  | JBool bool
  | JNum int
  | JStr string
  | JArr "jsval list"
  | JObj "(string \<times> jsval) list"

fun truthy :: "jsval \<Rightarrow> bool" where
  "truthy JUndefined = False"
| "truthy JNull = False"
| "truthy (JBool b) = b"
| "truthy (JNum n) = (n \<noteq> 0)"
| "truthy (JStr s) = (s \<noteq> [])"
| "truthy (JArr _) = True"
| "truthy (JObj _) = True"

text \<open>\<open>a || b\<close>\<close>

definition js_or :: "jsval \<Rightarrow> jsval \<Rightarrow> jsval" where
  "js_or a b = (if truthy a then a else b)"

fun nullish :: "jsval \<Rightarrow> bool" where
  "nullish JUndefined = True"
| "nullish JNull = True"
| "nullish _ = False"

text \<open>
  \<open>v?.k\<close> for the property names read in these files (\<open>error\<close>, \<open>detail\<close>, \<open>ktp_data\<close> and
  the twelve field names), which only an object can have: \<open>undefined\<close> on \<open>null\<close> and
  \<open>undefined\<close>, on a string, number, boolean or array, and on an object without the
  property.
\<close>

fun get_opt :: "jsval \<Rightarrow> string \<Rightarrow> jsval" where
  "get_opt (JObj kvs) k = (case map_of kvs k of Some v \<Rightarrow> v | None \<Rightarrow> JUndefined)"
| "get_opt _ k = JUndefined"

datatype js_exn = TypeError

text \<open>\<open>v.k\<close> and \<open>v[k]\<close>: as \<open>v?.k\<close>, but reading a property of \<open>null\<close> or \<open>undefined\<close> throws.\<close>

definition get_prop :: "jsval \<Rightarrow> string \<Rightarrow> js_exn + jsval" where
  "get_prop v k = (if nullish v then Inl TypeError else Inr (get_opt v k))"

text \<open>
  What React draws for a value placed as a child \<open>{v}\<close>: nothing for \<open>null\<close>, \<open>undefined\<close>
  and the booleans, the text of a string, a number, the children of an array one after
  the other. An object is not a valid child: drawing it throws, which is \<open>None\<close> here.
\<close>

datatype drawn = Nothing_drawn | Text string | Number int | Several "drawn list"

fun draw_child :: "jsval \<Rightarrow> drawn option" where
  "draw_child JUndefined = Some Nothing_drawn"
| "draw_child JNull = Some Nothing_drawn"
| "draw_child (JBool b) = Some Nothing_drawn"
| "draw_child (JNum n) = Some (Number n)"
| "draw_child (JStr s) = Some (Text s)"
| "draw_child (JArr vs) = map_option Several (those (map draw_child vs))"
| "draw_child (JObj kvs) = None"

section \<open>ImageUpload.tsx: the drop handler\<close>

text \<open>
  The browser's \<open>File\<close> object, with the properties the component and the dropzone
  configuration refer to: the file name, the MIME type and the size in bytes.
\<close>

record File =
  name_f :: string
  type_f :: string
  size_f :: nat

text \<open>
  A rejection as the dropzone hands it to \<open>onDrop\<close>: the file and the list of errors,
  each with a \<open>code\<close> and a \<open>message\<close>.
\<close>

record FileError =
  code :: string
  message_fe :: string

record FileRejection =
  file_r :: File
  errors :: "FileError list"

definition MAX_FILE_SIZE :: nat where
  "MAX_FILE_SIZE = 10 * 1024 * 1024"

text \<open>
  What one call of \<open>onDrop\<close> leaves behind: the value of the \<open>validationError\<close> state and
  the files \<open>onUpload\<close> was called with, in call order.
\<close>

record drop_result =
  validationError :: "string option"
  uploaded :: "File list"

text \<open>
  \<open>onDrop(acceptedFiles, rejectedFiles)\<close>, lines 14 to 37. \<open>rejectedFiles[0].errors[0]\<close> is
  \<open>undefined\<close> for an empty error list, and reading \<open>error.code\<close> then throws.
\<close>

definition onDrop :: "File list \<Rightarrow> FileRejection list \<Rightarrow> js_exn + drop_result" where
  "onDrop acceptedFiles rejectedFiles =
     (case rejectedFiles of
        r # _ \<Rightarrow>
          (case errors r of
             [] \<Rightarrow> Inl TypeError
           | error # _ \<Rightarrow>
               if code error = ''file-too-large'' then
                 Inr \<lparr>validationError = Some ''File is too large. Maximum size is 10MB.'',
                      uploaded = []\<rparr>
               else if code error = ''file-invalid-type'' then
                 Inr \<lparr>validationError =
                        Some ''Invalid file type. Only JPG and PNG images are accepted.'',
                      uploaded = []\<rparr>
               else Inr \<lparr>validationError = Some (message_fe error), uploaded = []\<rparr>)
      | [] \<Rightarrow>
          (case acceptedFiles of
             f # _ \<Rightarrow>
               if size_f f > MAX_FILE_SIZE then
                 Inr \<lparr>validationError = Some ''File is too large. Maximum size is 10MB.'',
                      uploaded = []\<rparr>
               else Inr \<lparr>validationError = None, uploaded = [f]\<rparr>
           | [] \<Rightarrow> Inr \<lparr>validationError = None, uploaded = []\<rparr>))"

text \<open>
  The options \<open>useDropzone\<close> is called with, lines 39 to 48. \<open>accept\<close> maps a MIME type to
  the file name extensions that go with it.
\<close>

record DropzoneOptions =
  accept :: "(string \<times> string list) list"
  maxFiles :: nat
  multiple :: bool
  maxSize :: nat

definition ImageUpload_options :: DropzoneOptions where
  "ImageUpload_options =
     \<lparr>accept = [(''image/jpeg'', [''.jpg'', ''.jpeg'']), (''image/png'', [''.png''])],
      maxFiles = 1,
      multiple = False,
      maxSize = MAX_FILE_SIZE\<rparr>"

text \<open>
  The dropzone is the library react-dropzone, which is not part of the repository. What
  follows is its handling of a drop under such options, as far as \<open>onDrop\<close> can see
  it: each file is checked against \<open>accept\<close> and \<open>maxSize\<close>, and the files that pass are
  rejected after all when there are more of them than a single-file dropzone takes.
\<close>

definition toLowerCase :: "string \<Rightarrow> string" where
  "toLowerCase s =
     map (\<lambda>c. case map_of (zip ''ABCDEFGHIJKLMNOPQRSTUVWXYZ'' ''abcdefghijklmnopqrstuvwxyz'') c of
                 Some l \<Rightarrow> l
               | None \<Rightarrow> c) s"

definition endsWith :: "string \<Rightarrow> string \<Rightarrow> bool" where
  "endsWith s t = (take (length t) (rev s) = rev t)"

text \<open>The list the library makes of \<open>accept\<close>: each MIME type followed by its extensions.\<close>

definition acceptAttr :: "DropzoneOptions \<Rightarrow> string list" where
  "acceptAttr opts = concat (map (\<lambda>(mimeType, ext). mimeType # ext) (accept opts))"

text \<open>
  Whether a file matches one entry of that list: an entry that starts with a dot is
  compared with the end of the file name, an entry that ends in \<open>/*\<close> with the part of
  the MIME type before the slash, any other entry with the whole MIME type; all in lower
  case.
\<close>

definition matches_entry :: "File \<Rightarrow> string \<Rightarrow> bool" where
  "matches_entry f entry =
     (let validType = toLowerCase entry;
          mimeType = toLowerCase (type_f f)
      in if (case validType of c # _ \<Rightarrow> c = CHR ''.'' | [] \<Rightarrow> False)
         then endsWith (toLowerCase (name_f f)) validType
         else if endsWith validType ''/*''
         then takeWhile (\<lambda>c. c \<noteq> CHR ''/'') mimeType = takeWhile (\<lambda>c. c \<noteq> CHR ''/'') validType
         else mimeType = validType)"

text \<open>
  The type check. A file is acceptable when the list is empty or one entry matches;
  the placeholder type that old versions of Firefox give every dragged file is always
  acceptable.
\<close>

definition fileAccepted :: "DropzoneOptions \<Rightarrow> File \<Rightarrow> bool" where
  "fileAccepted opts f =
     (type_f f = ''application/x-moz-file''
      \<or> acceptAttr opts = [] \<or> list_ex (matches_entry f) (acceptAttr opts))"

definition fileMatchSize :: "DropzoneOptions \<Rightarrow> File \<Rightarrow> bool" where
  "fileMatchSize opts f = (size_f f \<le> maxSize opts)"

text \<open>
  The texts of the two errors whose message \<open>onDrop\<close> replaces by its own; they differ
  between versions of the library and are left open.
\<close>

record library_texts =
  invalid_type_text :: string
  too_large_text :: string

text \<open>The errors of one file: the type error first, then the size error.\<close>

definition file_errors :: "DropzoneOptions \<Rightarrow> library_texts \<Rightarrow> File \<Rightarrow> FileError list" where
  "file_errors opts texts f =
     (if fileAccepted opts f then []
      else [\<lparr>code = ''file-invalid-type'', message_fe = invalid_type_text texts\<rparr>])
     @ (if fileMatchSize opts f then []
        else [\<lparr>code = ''file-too-large'', message_fe = too_large_text texts\<rparr>])"

text \<open>The loop over the dropped files: accepted files and rejections, each in drop order.\<close>

fun classify ::
  "DropzoneOptions \<Rightarrow> library_texts \<Rightarrow> File list \<Rightarrow> File list \<times> FileRejection list" where
  "classify opts texts [] = ([], [])"
| "classify opts texts (f # fs) =
     (case classify opts texts fs of
        (acceptedFiles, fileRejections) \<Rightarrow>
          if file_errors opts texts f = [] then (f # acceptedFiles, fileRejections)
          else (acceptedFiles, \<lparr>file_r = f, errors = file_errors opts texts f\<rparr> # fileRejections))"

text \<open>
  The whole split. With more accepted files than allowed, every accepted file is
  rejected with \<open>too-many-files\<close>, after the rejections of the loop.
\<close>

definition setFiles ::
  "DropzoneOptions \<Rightarrow> library_texts \<Rightarrow> File list \<Rightarrow> File list \<times> FileRejection list" where
  "setFiles opts texts files =
     (case classify opts texts files of
        (acceptedFiles, fileRejections) \<Rightarrow>
          if (\<not> multiple opts \<and> length acceptedFiles > 1)
             \<or> (multiple opts \<and> maxFiles opts \<ge> 1 \<and> length acceptedFiles > maxFiles opts)
          then ([],
                fileRejections
                @ map (\<lambda>f. \<lparr>file_r = f,
                             errors = [\<lparr>code = ''too-many-files'',
                                        message_fe = ''Too many files''\<rparr>]\<rparr>) acceptedFiles)
          else (acceptedFiles, fileRejections))"

text \<open>A drop on the component: the dropzone splits the files and calls \<open>onDrop\<close>.\<close>

definition ImageUpload_drop :: "library_texts \<Rightarrow> File list \<Rightarrow> js_exn + drop_result" where
  "ImageUpload_drop texts files =
     (case setFiles ImageUpload_options texts files of
        (acceptedFiles, fileRejections) \<Rightarrow> onDrop acceptedFiles fileRejections)"

text \<open>
  The type check of the dropzone under the options of the component, written out:
  the MIME type is \<open>image/jpeg\<close> or \<open>image/png\<close>, or the file name ends in \<open>.jpg\<close>,
  \<open>.jpeg\<close> or \<open>.png\<close>, letter case aside, or the type is Firefox's placeholder.
\<close>

definition accepted_type :: "File \<Rightarrow> bool" where
  "accepted_type f =
     (type_f f = ''application/x-moz-file''
      \<or> toLowerCase (type_f f) = ''image/jpeg''
      \<or> toLowerCase (type_f f) = ''image/png''
      \<or> endsWith (toLowerCase (name_f f)) ''.jpg''
      \<or> endsWith (toLowerCase (name_f f)) ''.jpeg''
      \<or> endsWith (toLowerCase (name_f f)) ''.png'')"

section \<open>ErrorBoundary.tsx\<close>

record Error =
  message :: string

record State =
  hasError :: bool
  error_b :: "Error option"

definition initial_State :: State where
  "initial_State = \<lparr>hasError = False, error_b = None\<rparr>"

definition getDerivedStateFromError :: "Error \<Rightarrow> State" where
  "getDerivedStateFromError error = \<lparr>hasError = True, error_b = Some error\<rparr>"

text \<open>
  What \<open>render\<close> returns: the fallback box with the text of its paragraph (and the
  \<open>Try again\<close> button), or the \<open>children\<close> prop as it is.
\<close>

datatype 'c rendered = Fallback string | Children 'c

text \<open>\<open>this.state.error?.message || 'Something went wrong'\<close>, line 36.\<close>

definition fallback_text :: "State \<Rightarrow> string" where
  "fallback_text s =
     (case error_b s of
        None \<Rightarrow> ''Something went wrong''
      | Some e \<Rightarrow> if message e = [] then ''Something went wrong'' else message e)"

definition render :: "State \<Rightarrow> 'c \<Rightarrow> 'c rendered" where
  "render s children = (if hasError s then Fallback (fallback_text s) else Children children)"

text \<open>The \<open>onClick\<close> handler of the \<open>Try again\<close> button.\<close>

definition try_again :: "State \<Rightarrow> State" where
  "try_again s = s\<lparr>hasError := False, error_b := None\<rparr>"

text \<open>
  One render pass of the boundary under React. \<open>draw\<close> renders the children that
  \<open>render\<close> returned and either gives their output or throws. \<open>show_once\<close> is one call
  of \<open>render\<close> followed by drawing what it returned. When the descendants throw, React
  derives the next state with \<open>getDerivedStateFromError\<close> and renders the boundary once
  more; an error in that second attempt is no longer this boundary's to handle, and
  nothing of it stays on screen.
\<close>

datatype 'v screen = ShowsFallback string | Shows 'v

definition show_once :: "State \<Rightarrow> 'c \<Rightarrow> ('c \<Rightarrow> Error + 'v) \<Rightarrow> Error + 'v screen" where
  "show_once s children draw =
     (case render s children of
        Fallback m \<Rightarrow> Inr (ShowsFallback m)
      | Children c \<Rightarrow> (case draw c of Inr v \<Rightarrow> Inr (Shows v) | Inl e \<Rightarrow> Inl e))"

definition render_pass ::
  "State \<Rightarrow> 'c \<Rightarrow> ('c \<Rightarrow> Error + 'v) \<Rightarrow> State \<times> 'v screen option" where
  "render_pass s children draw =
     (case show_once s children draw of
        Inr scr \<Rightarrow> (s, Some scr)
      | Inl e \<Rightarrow>
          (getDerivedStateFromError e,
           case show_once (getDerivedStateFromError e) children draw of
             Inr scr \<Rightarrow> Some scr
           | Inl e' \<Rightarrow> None))"

section \<open>types/ktp.ts: the record\<close>

datatype Gender = LAKI_LAKI | PEREMPUAN

datatype BloodType = Blood_A | Blood_B | Blood_AB | Blood_O | Blood_dash

text \<open>The string literal each member of the two union types stands for.\<close>

fun Gender_literal :: "Gender \<Rightarrow> string" where
  "Gender_literal LAKI_LAKI = ''LAKI-LAKI''"
| "Gender_literal PEREMPUAN = ''PEREMPUAN''"

fun BloodType_literal :: "BloodType \<Rightarrow> string" where
  "BloodType_literal Blood_A = ''A''"
| "BloodType_literal Blood_B = ''B''"
| "BloodType_literal Blood_AB = ''AB''"
| "BloodType_literal Blood_O = ''O''"
| "BloodType_literal Blood_dash = ''-''"

text \<open>
  The interface \<open>KTPData\<close> as declared: what the compiler knows of a record. An optional
  property is \<open>None\<close> when the object does not have it.
\<close>

record KTPData =
  nik :: string
  name :: string
  birth_place :: string
  birth_date :: string
  gender :: Gender
  address :: string
  blood_type :: "BloodType option"
  religion :: "string option"
  marital_status :: "string option"
  occupation :: "string option"
  nationality :: "string option"
  valid_until :: "string option"

text \<open>
  The object that a value of the interface is at run time: one property for each field
  that is there, a string each. Not every object at run time is of this shape; the
  components work on whatever they are given.
\<close>

definition optional_property :: "string \<Rightarrow> string option \<Rightarrow> (string \<times> jsval) list" where
  "optional_property k v = (case v of None \<Rightarrow> [] | Some s \<Rightarrow> [(k, JStr s)])"

definition js_of_KTPData :: "KTPData \<Rightarrow> jsval" where
  "js_of_KTPData d =
     JObj ([(''nik'', JStr (nik d)),
            (''name'', JStr (name d)),
            (''birth_place'', JStr (birth_place d)),
            (''birth_date'', JStr (birth_date d)),
            (''gender'', JStr (Gender_literal (gender d))),
            (''address'', JStr (address d))]
           @ optional_property ''blood_type'' (map_option BloodType_literal (blood_type d))
           @ optional_property ''religion'' (religion d)
           @ optional_property ''marital_status'' (marital_status d)
           @ optional_property ''occupation'' (occupation d)
           @ optional_property ''nationality'' (nationality d)
           @ optional_property ''valid_until'' (valid_until d))"

section \<open>KTPDisplay.tsx\<close>

text \<open>\<open>fieldLabels\<close>, in the order \<open>Object.entries\<close> lists its keys.\<close>

definition fieldLabels :: "(string \<times> string) list" where
  "fieldLabels =
     [(''nik'', ''NIK''),
      (''name'', ''Nama''),
      (''birth_place'', ''Tempat Lahir''),
      (''birth_date'', ''Tanggal Lahir''),
      (''gender'', ''Jenis Kelamin''),
      (''address'', ''Alamat''),
      (''blood_type'', ''Golongan Darah''),
      (''religion'', ''Agama''),
      (''marital_status'', ''Status Perkawinan''),
      (''occupation'', ''Pekerjaan''),
      (''nationality'', ''Kewarganegaraan''),
      (''valid_until'', ''Berlaku Hingga'')]"

text \<open>
  One \<open>div\<close> of the definition list as the component returns it: its React key, the
  \<open>dt\<close> text, the value placed in the \<open>dd\<close> and the background class chosen from the
  index of the field in \<open>fieldLabels\<close>.
\<close>

record display_row =
  key_r :: string
  label_r :: string
  value_r :: jsval
  background :: string

text \<open>
  The callback of \<open>map\<close>, lines 34 to 48, for a \<open>data\<close> that is not \<open>null\<close> or
  \<open>undefined\<close>: \<open>None\<close> stands for the returned \<open>null\<close>.
\<close>

definition render_field :: "jsval \<Rightarrow> nat \<times> string \<times> string \<Rightarrow> display_row option" where
  "render_field data entry =
     (case entry of (index, key, label) \<Rightarrow>
        (let value = get_opt data key
         in if \<not> truthy value then None
            else Some \<lparr>key_r = key, label_r = label, value_r = value,
                       background = (if index mod 2 = 0 then ''bg-gray-50'' else ''bg-white'')\<rparr>))"

definition KTPDisplay_rows :: "jsval \<Rightarrow> display_row list" where
  "KTPDisplay_rows data = List.map_filter (render_field data) (enumerate 0 fieldLabels)"

text \<open>
  The rows \<open>KTPDisplay\<close> returns; React draws nothing for a \<open>null\<close>. Reading \<open>data[key]\<close>
  throws when \<open>data\<close> is \<open>null\<close> or \<open>undefined\<close>, at the first entry.
\<close>

definition KTPDisplay :: "jsval \<Rightarrow> js_exn + display_row list" where
  "KTPDisplay data = (if nullish data then Inl TypeError else Inr (KTPDisplay_rows data))"

text \<open>Whether React can draw the rows: the value of each must be a valid child.\<close>

definition rows_drawable :: "display_row list \<Rightarrow> bool" where
  "rows_drawable rows = list_all (\<lambda>r. draw_child (value_r r) \<noteq> None) rows"

text \<open>The two records of the component's test file, \<open>mockKTPData\<close> and \<open>partialData\<close>.\<close>

definition mockKTPData :: KTPData where
  "mockKTPData =
     \<lparr>nik = ''3173042504900001'',
      name = ''JOHN DOE'',
      birth_place = ''JAKARTA'',
      birth_date = ''1990-04-25'',
      gender = LAKI_LAKI,
      address = ''JL. KEBON JERUK RT 001 RW 002 KEL. KEMANGGISAN KEC. PALMERAH'',
      blood_type = Some Blood_O,
      religion = Some ''ISLAM'',
      marital_status = Some ''KAWIN'',
      occupation = Some ''KARYAWAN SWASTA'',
      nationality = Some ''WNI'',
      valid_until = Some ''SEUMUR HIDUP''\<rparr>"

definition partialData :: KTPData where
  "partialData =
     \<lparr>nik = ''3173042504900001'',
      name = ''JOHN DOE'',
      birth_place = ''JAKARTA'',
      birth_date = ''1990-04-25'',
      gender = LAKI_LAKI,
      address = ''JL. KEBON JERUK'',
      blood_type = None,
      religion = None,
      marital_status = None,
      occupation = None,
      nationality = None,
      valid_until = None\<rparr>"

section \<open>App.tsx: requests and responses\<close>

record 'd AxiosResponse =
  status :: nat
  data :: 'd

text \<open>An \<open>AxiosError\<close> is an \<open>Error\<close> with the response, when one arrived.\<close>

record AxiosError = Error +
  response :: "jsval AxiosResponse option"

text \<open>What a rejected request throws: \<open>axios.isAxiosError\<close> tells the two apart.\<close>

datatype thrown = IsAxiosError AxiosError | OtherThrown

datatype 'a settled = Fulfilled 'a | Rejected thrown

record FormData =
  entries :: "(string \<times> File) list"

datatype request = POST string FormData

section \<open>App.tsx: state and handlers\<close>

text \<open>
  The four \<open>useState\<close> cells. \<open>ktpData\<close> is declared \<open>KTPData | null\<close> and \<open>error\<close> is
  declared \<open>string | null\<close>; both are assigned values of type any, so they are kept as
  they are at run time, \<open>JNull\<close> for \<open>null\<close>.
\<close>

record App_state =
  ktpData :: jsval
  loading :: bool
  error :: jsval
  imagePreview :: "string option"

definition initial_App_state :: App_state where
  "initial_App_state = \<lparr>ktpData = JNull, loading = False, error = JNull, imagePreview = None\<rparr>"

text \<open>
  \<open>handleUpload\<close> is asynchronous: it runs up to an \<open>await\<close>, and goes on when the
  awaited request settles. \<open>awaiting\<close> is the point where the call in flight is
  suspended, with its \<open>formData\<close>; \<open>sent\<close> is the log of the requests issued so far, in
  order.
\<close>

datatype suspended = AwaitUpload FormData | AwaitExtract FormData

record world =
  app :: App_state
  awaiting :: "suspended option"
  sent :: "request list"

definition initial_world :: world where
  "initial_world = \<lparr>app = initial_App_state, awaiting = None, sent = []\<rparr>"

text \<open>
  Line 43: \<open>err.response?.data?.error || err.response?.data?.detail?.error || err.message\<close>.
\<close>

definition response_data :: "AxiosError \<Rightarrow> jsval" where
  "response_data err = (case response err of None \<Rightarrow> JUndefined | Some r \<Rightarrow> data r)"

definition errorMessage :: "AxiosError \<Rightarrow> jsval" where
  "errorMessage err =
     js_or (js_or (get_opt (response_data err) ''error'')
                  (get_opt (get_opt (response_data err) ''detail'') ''error''))
           (JStr (message err))"

text \<open>The argument of \<open>setError\<close> in the \<open>catch\<close> block, lines 42 to 47.\<close>

definition caught_message :: "thrown \<Rightarrow> jsval" where
  "caught_message err =
     (case err of
        IsAxiosError e \<Rightarrow> errorMessage e
      | OtherThrown \<Rightarrow> JStr ''Failed to process KTP image. Please try again.'')"

text \<open>The \<open>catch\<close> block followed by \<open>finally\<close>, lines 40 to 51; the call is over.\<close>

definition catch_finally :: "thrown \<Rightarrow> world \<Rightarrow> world" where
  "catch_finally err w =
     w\<lparr>app := (app w)\<lparr>imagePreview := None, error := caught_message err, loading := False\<rparr>,
       awaiting := None\<rparr>"

text \<open>
  \<open>handleUpload(file)\<close> up to the first \<open>await\<close>, lines 20 to 35: the reader is started,
  the form data built and the upload request issued.
\<close>

definition handleUpload :: "string \<Rightarrow> File \<Rightarrow> world \<Rightarrow> world" where
  "handleUpload API_URL f w =
     w\<lparr>app := (app w)\<lparr>loading := True, error := JNull\<rparr>,
       awaiting := Some (AwaitUpload \<lparr>entries = [(''file'', f)]\<rparr>),
       sent := sent w @ [POST (API_URL @ ''/upload'') \<lparr>entries = [(''file'', f)]\<rparr>]\<rparr>"

text \<open>The upload request settles: line 38 issues the extract request, or the error is caught.\<close>

definition upload_settled :: "string \<Rightarrow> jsval AxiosResponse settled \<Rightarrow> world \<Rightarrow> world" where
  "upload_settled API_URL outcome w =
     (case awaiting w of
        Some (AwaitUpload formData) \<Rightarrow>
          (case outcome of
             Fulfilled _ \<Rightarrow>
               w\<lparr>awaiting := Some (AwaitExtract formData),
                 sent := sent w @ [POST (API_URL @ ''/extract'') formData]\<rparr>
           | Rejected err \<Rightarrow> catch_finally err w)
      | _ \<Rightarrow> w)"

text \<open>
  The extract request settles: line 39 and \<open>finally\<close>, or the error is caught. Reading
  \<open>extractResponse.data.ktp_data\<close> throws a TypeError when the body is \<open>null\<close> or
  \<open>undefined\<close>; whatever else the read gives, \<open>undefined\<close> included, is stored.
\<close>

definition extract_settled :: "jsval AxiosResponse settled \<Rightarrow> world \<Rightarrow> world" where
  "extract_settled outcome w =
     (case awaiting w of
        Some (AwaitExtract formData) \<Rightarrow>
          (case outcome of
             Fulfilled extractResponse \<Rightarrow>
               (case get_prop (data extractResponse) ''ktp_data'' of
                  Inl _ \<Rightarrow> catch_finally OtherThrown w
                | Inr k \<Rightarrow>
                    w\<lparr>app := (app w)\<lparr>ktpData := k, loading := False\<rparr>, awaiting := None\<rparr>)
           | Rejected err \<Rightarrow> catch_finally err w)
      | _ \<Rightarrow> w)"

text \<open>\<open>reader.onloadend\<close>, lines 26 to 28, whenever the reader is done.\<close>

definition onloadend :: "string option \<Rightarrow> world \<Rightarrow> world" where
  "onloadend result w = w\<lparr>app := (app w)\<lparr>imagePreview := result\<rparr>\<rparr>"

definition handleReset :: "world \<Rightarrow> world" where
  "handleReset w = w\<lparr>app := (app w)\<lparr>ktpData := JNull, error := JNull, imagePreview := None\<rparr>\<rparr>"

text \<open>
  What \<open>App\<close> puts on the page, lines 72 to 90: one of the three main views. When the
  values of the record cannot be drawn, rendering throws and the error boundary around
  the page takes over.
\<close>

datatype main_view =
    Loading_view
  | KTPDisplay_view "display_row list"
  | ImageUpload_view "string option"
  | Main_throws

definition main_view_of :: "App_state \<Rightarrow> main_view" where
  "main_view_of s =
     (if loading s then Loading_view
      else if truthy (ktpData s) then
        (case KTPDisplay (ktpData s) of
           Inl _ \<Rightarrow> Main_throws
         | Inr rows \<Rightarrow> if rows_drawable rows then KTPDisplay_view rows else Main_throws)
      else ImageUpload_view
             (case imagePreview s of
                None \<Rightarrow> None
              | Some url \<Rightarrow> if url = [] then None else Some url))"

text \<open>
  The error part of the page, lines 92 to 107, for a value of \<open>error\<close>. \<open>error && box\<close> is
  the box with \<open>{error}\<close> as the child of its paragraph when \<open>error\<close> is truthy, and is the
  falsy \<open>error\<close> itself otherwise, which React draws in place of a box: nothing, except
  for the number zero. A truthy object cannot be drawn: rendering throws, and the error
  boundary around the page takes over.
\<close>

datatype error_view = No_box drawn | Box drawn | Box_throws

definition error_view_of :: "jsval \<Rightarrow> error_view" where
  "error_view_of v =
     (case draw_child v of
        None \<Rightarrow> if truthy v then Box_throws else No_box Nothing_drawn
      | Some d \<Rightarrow> if truthy v then Box d else No_box d)"

definition error_box :: "App_state \<Rightarrow> error_view" where
  "error_box s = error_view_of (error s)"

text \<open>
  What can happen to the page. \<open>ImageUpload\<close> and with it \<open>onUpload\<close> exist only in the
  upload view, the reset button only in the record view.
\<close>

datatype event =
    Upload File
  | LoadEnd "string option"
  | UploadSettled "jsval AxiosResponse settled"
  | ExtractSettled "jsval AxiosResponse settled"
  | Reset

definition step :: "string \<Rightarrow> event \<Rightarrow> world \<Rightarrow> world" where
  "step API_URL ev w =
     (case ev of
        Upload f \<Rightarrow>
          if \<not> loading (app w) \<and> \<not> truthy (ktpData (app w)) then handleUpload API_URL f w else w
      | LoadEnd result \<Rightarrow> onloadend result w
      | UploadSettled outcome \<Rightarrow> upload_settled API_URL outcome w
      | ExtractSettled outcome \<Rightarrow> extract_settled outcome w
      | Reset \<Rightarrow>
          if \<not> loading (app w) \<and> truthy (ktpData (app w)) then handleReset w else w)"

definition run :: "string \<Rightarrow> event list \<Rightarrow> world \<Rightarrow> world" where
  "run API_URL evs w = fold (step API_URL) evs w"

fun is_LoadEnd :: "event \<Rightarrow> bool" where
  "is_LoadEnd (LoadEnd _) = True"
| "is_LoadEnd _ = False"

fun is_upload_fulfilled :: "event \<Rightarrow> bool" where
  "is_upload_fulfilled (UploadSettled (Fulfilled _)) = True"
| "is_upload_fulfilled _ = False"

fun is_extract_request :: "string \<Rightarrow> request \<Rightarrow> bool" where
  "is_extract_request API_URL (POST url formData) = (url = API_URL @ ''/extract'')"

text \<open>
  Every value that occurs in a JSON value, itself included: what a response body
  carries.
\<close>

fun subvalues :: "jsval \<Rightarrow> jsval list" where
  "subvalues (JArr vs) = JArr vs # concat (map subvalues vs)"
| "subvalues (JObj kvs) = JObj kvs # concat (map (\<lambda>kv. subvalues (snd kv)) kvs)"
| "subvalues v = [v]"

definition carried_by_response :: "AxiosError \<Rightarrow> jsval list" where
  "carried_by_response err = (case response err of None \<Rightarrow> [] | Some r \<Rightarrow> subvalues (data r))"

text \<open>
  Two properties of a world that the steps keep: no extract request has been issued and
  none is awaited; and a call that is over has switched \<open>loading\<close> off.
\<close>

definition extract_not_started :: "string \<Rightarrow> world \<Rightarrow> bool" where
  "extract_not_started API_URL w =
     (list_all (\<lambda>q. \<not> is_extract_request API_URL q) (sent w)
      \<and> (case awaiting w of Some (AwaitExtract _) \<Rightarrow> False | _ \<Rightarrow> True))"

definition idle_not_loading :: "world \<Rightarrow> bool" where
  "idle_not_loading w = (case awaiting w of None \<Rightarrow> \<not> loading (app w) | Some _ \<Rightarrow> True)"

text \<open>
  The state of the page when a call of \<open>handleUpload\<close> has failed: at the upload
  request, or at the extract request after a fulfilled upload. \<open>rs1\<close> and \<open>rs2\<close> are the
  events that arrive while the two requests are pending.
\<close>

definition after_failed_upload ::
  "string \<Rightarrow> event list \<Rightarrow> thrown \<Rightarrow> File \<Rightarrow> world \<Rightarrow> App_state" where
  "after_failed_upload API_URL rs1 err f w =
     app (run API_URL (rs1 @ [UploadSettled (Rejected err)]) (handleUpload API_URL f w))"

definition after_failed_extract ::
  "string \<Rightarrow> event list \<Rightarrow> jsval AxiosResponse \<Rightarrow> event list \<Rightarrow> thrown \<Rightarrow> File \<Rightarrow> world
     \<Rightarrow> App_state" where
  "after_failed_extract API_URL rs1 r1 rs2 err f w =
     app (run API_URL (rs1 @ [UploadSettled (Fulfilled r1)] @ rs2 @ [ExtractSettled (Rejected err)])
            (handleUpload API_URL f w))"

section \<open>The extract endpoint's field validation\<close>

text \<open>
  The backend is not among the sources. Its field checks and its extract endpoint are
  written here from the specification, which gives the NIK check as the regular
  expression \<open>^\d{16}$\<close>, the birth date format as DD-MM-YYYY and the gender as one of
  two literal values.
\<close>

text \<open>Modelled from the spec: the backend's character class \<open>\d\<close>, a decimal digit.\<close>

definition is_digit :: "char \<Rightarrow> bool" where
  "is_digit c = (c \<in> set ''0123456789'')"

text \<open>Modelled from the spec: an item of the backend's patterns, \<open>\d\<close> or a literal character.\<close>

datatype pattern_item = Digit | Literal char

text \<open>
  Modelled from the spec: the backend's match of a pattern anchored by \<open>^\<close> and \<open>$\<close>, which
  takes the string from its first to its last character, one item for each character.
\<close>

fun full_match :: "pattern_item list \<Rightarrow> string \<Rightarrow> bool" where
  "full_match [] s = (s = [])"
| "full_match (p # ps) [] = False"
| "full_match (Digit # ps) (c # cs) = (is_digit c \<and> full_match ps cs)"
| "full_match (Literal x # ps) (c # cs) = (c = x \<and> full_match ps cs)"

text \<open>Modelled from the spec: the backend's NIK pattern \<open>^\d{16}$\<close>.\<close>

definition nik_pattern :: "pattern_item list" where
  "nik_pattern = replicate 16 Digit"

text \<open>Modelled from the spec: the backend's format of \<open>birth_date\<close>, DD-MM-YYYY.\<close>

definition birth_date_pattern :: "pattern_item list" where
  "birth_date_pattern =
     [Digit, Digit, Literal (CHR ''-''), Digit, Digit, Literal (CHR ''-''),
      Digit, Digit, Digit, Digit]"

text \<open>Modelled from the spec: the backend's check of the \<open>nik\<close> of a record.\<close>

definition nik_checked :: "jsval \<Rightarrow> bool" where
  "nik_checked r = (case get_opt r ''nik'' of JStr s \<Rightarrow> full_match nik_pattern s | _ \<Rightarrow> False)"

text \<open>Modelled from the spec: the backend's check of the \<open>birth_date\<close> of a record.\<close>

definition birth_date_checked :: "jsval \<Rightarrow> bool" where
  "birth_date_checked r =
     (case get_opt r ''birth_date'' of JStr s \<Rightarrow> full_match birth_date_pattern s | _ \<Rightarrow> False)"

text \<open>
  Modelled from the spec: the backend's check of the \<open>gender\<close> of a record, one of the two
  literal enum values.
\<close>

definition gender_checked :: "jsval \<Rightarrow> bool" where
  "gender_checked r =
     (get_opt r ''gender'' = JStr ''LAKI-LAKI'' \<or> get_opt r ''gender'' = JStr ''PEREMPUAN'')"

text \<open>
  Modelled from the spec: the backend's postprocessing step, which checks the extracted
  fields (NIK, dates, enums) by regular expression and format.
\<close>

definition field_validation :: "jsval \<Rightarrow> bool" where
  "field_validation r = (nik_checked r \<and> birth_date_checked r \<and> gender_checked r)"

text \<open>
  Modelled from the spec: the backend's endpoint \<open>POST /api/extract\<close>, which answers with
  \<open>{ktp_data: KTPRecord}\<close>; a malformed field surfaces as an HTTP error response with a
  message, which axios throws as the error \<open>failure\<close>.
\<close>

definition api_extract :: "AxiosError \<Rightarrow> jsval \<Rightarrow> jsval AxiosResponse settled" where
  "api_extract failure r =
     (if field_validation r
      then Fulfilled \<lparr>status = 200, data = JObj [(''ktp_data'', r)]\<rparr>
      else Rejected (IsAxiosError failure))"

text \<open>
  Modelled from the spec: an event as the page sees it when the extract responses come
  from a backend that applies the check \<open>P\<close>. A fulfilled extract response that carries a
  truthy \<open>ktp_data\<close> carries one that passed the check.
\<close>

fun served_checked :: "(jsval \<Rightarrow> bool) \<Rightarrow> event \<Rightarrow> bool" where
  "served_checked P (ExtractSettled (Fulfilled extractResponse)) =
     (if truthy (get_opt (data extractResponse) ''ktp_data'')
      then P (get_opt (data extractResponse) ''ktp_data'') else True)"
| "served_checked P _ = True"

text \<open>The record on display, if there is one, satisfies \<open>P\<close>.\<close>

definition displayed_record :: "(jsval \<Rightarrow> bool) \<Rightarrow> world \<Rightarrow> bool" where
  "displayed_record P w = (if truthy (ktpData (app w)) then P (ktpData (app w)) else True)"

section \<open>The claims as the specification words them\<close>

text \<open>
  The acceptance condition in the specification's words: the MIME type is
  \<open>image/jpeg\<close> or \<open>image/png\<close> and the size is at most 10 MB.
\<close>

definition spec_accepts :: "File \<Rightarrow> bool" where
  "spec_accepts f =
     ((type_f f = ''image/jpeg'' \<or> type_f f = ''image/png'') \<and> size_f f \<le> 10 * 1024 * 1024)"

text \<open>
  The upload rule read file by file: in a drop, each file is passed to \<open>onUpload\<close>
  exactly when it meets the acceptance condition, and a file that does not meet it
  leaves a validation error.
\<close>

definition drop_meets_spec :: "library_texts \<Rightarrow> File list \<Rightarrow> bool" where
  "drop_meets_spec texts files =
     (case ImageUpload_drop texts files of
        Inl _ \<Rightarrow> False
      | Inr r \<Rightarrow>
          list_all
            (\<lambda>f. if spec_accepts f then f \<in> set (uploaded r)
                 else f \<notin> set (uploaded r) \<and> validationError r \<noteq> None)
            files)"

text \<open>
  The error rule in the specification's words: what the page shows for a failed request
  is the message the HTTP error response carries. Read at its widest, the box shows a
  text that occurs somewhere in the body of the response.
\<close>

definition message_from_response :: "AxiosError \<Rightarrow> jsval \<Rightarrow> bool" where
  "message_from_response err v = (v \<in> set (carried_by_response err))"

definition shows_response_message :: "AxiosError \<Rightarrow> App_state \<Rightarrow> bool" where
  "shows_response_message err s =
     (case error_box s of
        Box (Text m) \<Rightarrow> message_from_response err (JStr m)
      | _ \<Rightarrow> False)"

text \<open>
  The value of \<open>error\<close> after a failure as the claim words it: the response's error
  message for an axios error, the fixed text otherwise.
\<close>

definition error_as_worded :: "thrown \<Rightarrow> jsval \<Rightarrow> bool" where
  "error_as_worded err v =
     (case err of
        IsAxiosError e \<Rightarrow> message_from_response e v
      | OtherThrown \<Rightarrow> v = JStr ''Failed to process KTP image. Please try again.'')"

section \<open>Rows of a record of type \<open>KTPData\<close>\<close>

text \<open>
  What the display of a record of type \<open>KTPData\<close> has for a field: a row with the key,
  the label and the text of the field, or no row with that key.
\<close>

definition row_shown :: "KTPData \<Rightarrow> string \<Rightarrow> string \<Rightarrow> string \<Rightarrow> bool" where
  "row_shown d key label text =
     (\<exists>r \<in> set (KTPDisplay_rows (js_of_KTPData d)).
        key_r r = key \<and> label_r r = label \<and> value_r r = JStr text)"

definition row_absent :: "KTPData \<Rightarrow> string \<Rightarrow> bool" where
  "row_absent d key = (key \<notin> key_r ` set (KTPDisplay_rows (js_of_KTPData d)))"

section \<open>Properties of the drop handler\<close>

lemma file_errors_Nil:
  "(file_errors opts texts f = []) = (fileAccepted opts f \<and> fileMatchSize opts f)"
  by (simp add: file_errors_def)

lemma classify_filter:
  "classify opts texts fs =
     (filter (\<lambda>f. file_errors opts texts f = []) fs,
      map (\<lambda>f. \<lparr>file_r = f, errors = file_errors opts texts f\<rparr>)
        (filter (\<lambda>f. file_errors opts texts f \<noteq> []) fs))"
  by (induction fs) simp_all

lemma find_filter_Cons:
  "find P xs = Some x \<Longrightarrow> \<exists>ys. filter P xs = x # ys"
  by (induction xs) (auto split: if_splits)

lemma find_None_filter:
  "find P xs = None \<Longrightarrow> filter P xs = [] \<and> filter (\<lambda>x. \<not> P x) xs = xs"
  by (induction xs) (auto split: if_splits)

lemma toLowerCase_entries:
  "toLowerCase ''image/jpeg'' = ''image/jpeg''"
  "toLowerCase ''image/png'' = ''image/png''"
  "toLowerCase ''.jpg'' = ''.jpg''"
  "toLowerCase ''.jpeg'' = ''.jpeg''"
  "toLowerCase ''.png'' = ''.png''"
  by (simp_all add: toLowerCase_def)

lemma fileAccepted_ImageUpload: "fileAccepted ImageUpload_options f = accepted_type f"
  by (auto simp: fileAccepted_def accepted_type_def acceptAttr_def ImageUpload_options_def
      matches_entry_def toLowerCase_entries endsWith_def)

lemma passes_ImageUpload:
  "(file_errors ImageUpload_options texts f = []) =
     (accepted_type f \<and> size_f f \<le> 10 * 1024 * 1024)"
  unfolding file_errors_Nil fileAccepted_ImageUpload
  by (simp add: fileMatchSize_def ImageUpload_options_def MAX_FILE_SIZE_def)

lemma first_error:
  "file_errors ImageUpload_options texts g \<noteq> [] \<Longrightarrow>
     \<exists>es. file_errors ImageUpload_options texts g =
       (if accepted_type g
        then \<lparr>code = ''file-too-large'', message_fe = too_large_text texts\<rparr>
        else \<lparr>code = ''file-invalid-type'', message_fe = invalid_type_text texts\<rparr>) # es"
  by (auto simp: file_errors_def fileAccepted_ImageUpload split: if_splits)

lemma drop_with_failing:
  assumes "find (\<lambda>g. file_errors ImageUpload_options texts g \<noteq> []) fs = Some g"
  shows "ImageUpload_drop texts fs =
     Inr \<lparr>validationError =
            Some (if accepted_type g then ''File is too large. Maximum size is 10MB.''
                  else ''Invalid file type. Only JPG and PNG images are accepted.''),
          uploaded = []\<rparr>"
proof -
  from find_filter_Cons [OF assms] obtain gs where
    gs: "filter (\<lambda>g. file_errors ImageUpload_options texts g \<noteq> []) fs = g # gs"
    by blast
  from assms have "file_errors ImageUpload_options texts g \<noteq> []"
    by (auto simp: find_Some_iff)
  from first_error [OF this] obtain es where
    es: "file_errors ImageUpload_options texts g =
       (if accepted_type g
        then \<lparr>code = ''file-too-large'', message_fe = too_large_text texts\<rparr>
        else \<lparr>code = ''file-invalid-type'', message_fe = invalid_type_text texts\<rparr>) # es"
    by blast
  show ?thesis
    by (simp add: ImageUpload_drop_def setFiles_def classify_filter gs es onDrop_def)
qed

lemma drop_all_pass:
  assumes "find (\<lambda>g. file_errors ImageUpload_options texts g \<noteq> []) fs = None"
  shows "ImageUpload_drop texts fs =
     (case fs of
        [] \<Rightarrow> Inr \<lparr>validationError = None, uploaded = []\<rparr>
      | [f] \<Rightarrow> Inr \<lparr>validationError = None, uploaded = [f]\<rparr>
      | f1 # f2 # rest \<Rightarrow> Inr \<lparr>validationError = Some ''Too many files'', uploaded = []\<rparr>)"
proof -
  from find_None_filter [OF assms] have
    none: "filter (\<lambda>g. file_errors ImageUpload_options texts g \<noteq> []) fs = []"
    and all: "filter (\<lambda>g. file_errors ImageUpload_options texts g = []) fs = fs"
    by simp_all
  show ?thesis
  proof (cases fs)
    case Nil
    then show ?thesis
      by (simp add: ImageUpload_drop_def setFiles_def onDrop_def)
  next
    case (Cons f1 fs1)
    note outer = Cons
    show ?thesis
    proof (cases fs1)
      case Nil
      with outer all have "file_errors ImageUpload_options texts f1 = []"
        by (auto split: if_splits)
      then have "size_f f1 \<le> MAX_FILE_SIZE"
        by (simp add: passes_ImageUpload MAX_FILE_SIZE_def)
      with Nil outer none all show ?thesis
        by (simp add: ImageUpload_drop_def setFiles_def classify_filter onDrop_def
            ImageUpload_options_def)
    next
      case (Cons f2 rest)
      with outer none all show ?thesis
        by (simp add: ImageUpload_drop_def setFiles_def classify_filter onDrop_def
            ImageUpload_options_def)
    qed
  qed
qed

lemma accepted_jpeg:
  "accepted_type \<lparr>name_f = ''front.jpg'', type_f = ''image/jpeg'', size_f = 1000\<rparr>"
  by (simp add: accepted_type_def toLowerCase_def)

lemma accepted_png_name:
  "accepted_type \<lparr>name_f = ''notes.png'', type_f = ''text/plain'', size_f = 1000\<rparr>"
  by (simp add: accepted_type_def toLowerCase_def endsWith_def)

text \<open>
  C1, as the code has it. The dropzone takes a single file, of type \<open>image/jpeg\<close> or
  \<open>image/png\<close> and of at most 10 MB, and hands \<open>onDrop\<close> each drop split into accepted
  and rejected files. Its type check passes a file whose MIME type is \<open>image/jpeg\<close> or
  \<open>image/png\<close>, and also one whose name ends in \<open>.jpg\<close>, \<open>.jpeg\<close> or \<open>.png\<close> whatever
  its MIME type, letter case aside, and one with Firefox's placeholder type. For a drop
  of one file, \<open>onUpload\<close> is called with the file exactly when the file passes the type
  check and its size is at most \<open>10 * 1024 * 1024\<close> bytes; otherwise it is not called and
  \<open>validationError\<close> is the text for a wrong type when the type check fails, and the text
  for an oversize file when only the size is over. An empty drop does nothing. A drop of
  two or more files uploads none of them: \<open>validationError\<close> is the text for the first
  file that fails a check, and \<open>Too many files\<close> when every file passes.
\<close>

theorem ImageUpload_uploads_single_accepted_file:
  "fileAccepted ImageUpload_options f = accepted_type f
   \<and> ImageUpload_drop texts [f] =
       Inr \<lparr>validationError =
              (if \<not> accepted_type f
               then Some ''Invalid file type. Only JPG and PNG images are accepted.''
               else if size_f f > 10 * 1024 * 1024
               then Some ''File is too large. Maximum size is 10MB.''
               else None),
            uploaded = (if accepted_type f \<and> size_f f \<le> 10 * 1024 * 1024 then [f] else [])\<rparr>
   \<and> ImageUpload_drop texts [] = Inr \<lparr>validationError = None, uploaded = []\<rparr>
   \<and> ImageUpload_drop texts (f1 # f2 # fs) =
       Inr \<lparr>validationError =
              Some (case find (\<lambda>g. \<not> (accepted_type g \<and> size_f g \<le> 10 * 1024 * 1024))
                          (f1 # f2 # fs) of
                      None \<Rightarrow> ''Too many files''
                    | Some g \<Rightarrow>
                        if \<not> accepted_type g
                        then ''Invalid file type. Only JPG and PNG images are accepted.''
                        else ''File is too large. Maximum size is 10MB.''),
            uploaded = []\<rparr>"
proof -
  have same: "(\<lambda>g. file_errors ImageUpload_options texts g \<noteq> []) =
              (\<lambda>g. \<not> (accepted_type g \<and> size_f g \<le> 10 * 1024 * 1024))"
    by (simp add: passes_ImageUpload)
  have any: "ImageUpload_drop texts xs =
      (case find (\<lambda>g. \<not> (accepted_type g \<and> size_f g \<le> 10 * 1024 * 1024)) xs of
         Some g \<Rightarrow>
           Inr \<lparr>validationError =
                  Some (if accepted_type g then ''File is too large. Maximum size is 10MB.''
                        else ''Invalid file type. Only JPG and PNG images are accepted.''),
                uploaded = []\<rparr>
       | None \<Rightarrow>
           (case xs of
              [] \<Rightarrow> Inr \<lparr>validationError = None, uploaded = []\<rparr>
            | [x] \<Rightarrow> Inr \<lparr>validationError = None, uploaded = [x]\<rparr>
            | x1 # x2 # rest \<Rightarrow>
                Inr \<lparr>validationError = Some ''Too many files'', uploaded = []\<rparr>))" for xs
  proof (cases "find (\<lambda>g. file_errors ImageUpload_options texts g \<noteq> []) xs")
    case None
    from drop_all_pass [OF this] None show ?thesis by (simp add: same)
  next
    case (Some g)
    from drop_with_failing [OF this] Some show ?thesis by (simp add: same)
  qed
  have one: "ImageUpload_drop texts [f] =
       Inr \<lparr>validationError =
              (if \<not> accepted_type f
               then Some ''Invalid file type. Only JPG and PNG images are accepted.''
               else if size_f f > 10 * 1024 * 1024
               then Some ''File is too large. Maximum size is 10MB.''
               else None),
            uploaded = (if accepted_type f \<and> size_f f \<le> 10 * 1024 * 1024 then [f] else [])\<rparr>"
    by (simp add: any [of "[f]"])
  have none: "ImageUpload_drop texts [] = Inr \<lparr>validationError = None, uploaded = []\<rparr>"
    by (simp add: any [of "[]"])
  have many: "ImageUpload_drop texts (f1 # f2 # fs) =
       Inr \<lparr>validationError =
              Some (case find (\<lambda>g. \<not> (accepted_type g \<and> size_f g \<le> 10 * 1024 * 1024))
                          (f1 # f2 # fs) of
                      None \<Rightarrow> ''Too many files''
                    | Some g \<Rightarrow>
                        if \<not> accepted_type g
                        then ''Invalid file type. Only JPG and PNG images are accepted.''
                        else ''File is too large. Maximum size is 10MB.''),
            uploaded = []\<rparr>"
    unfolding any [of "f1 # f2 # fs"]
    by (cases "find (\<lambda>g. \<not> (accepted_type g \<and> size_f g \<le> 10 * 1024 * 1024)) (f1 # f2 # fs)")
       simp_all
  from fileAccepted_ImageUpload [of f] one none many show ?thesis by (intro conjI)
qed

theorem ImageUpload_uploads_single_accepted_file_witness:
  "accepted_type \<lparr>name_f = ''front.jpg'', type_f = ''image/jpeg'', size_f = 1000\<rparr>
   \<and> ImageUpload_drop \<lparr>invalid_type_text = ''File type must be image/jpeg,.jpg,.jpeg,image/png,.png'',
                        too_large_text = ''File is larger than 10485760 bytes''\<rparr>
       [\<lparr>name_f = ''front.jpg'', type_f = ''image/jpeg'', size_f = 1000\<rparr>] =
       Inr \<lparr>validationError = None,
            uploaded = [\<lparr>name_f = ''front.jpg'', type_f = ''image/jpeg'', size_f = 1000\<rparr>]\<rparr>"
proof -
  note T = ImageUpload_uploads_single_accepted_file
    [where f = "\<lparr>name_f = ''front.jpg'', type_f = ''image/jpeg'', size_f = 1000\<rparr>"
       and texts = "\<lparr>invalid_type_text = ''File type must be image/jpeg,.jpg,.jpeg,image/png,.png'',
                     too_large_text = ''File is larger than 10485760 bytes''\<rparr>"
       and ?f1.0 = "\<lparr>name_f = ''front.jpg'', type_f = ''image/jpeg'', size_f = 1000\<rparr>"
       and ?f2.0 = "\<lparr>name_f = ''front.jpg'', type_f = ''image/jpeg'', size_f = 1000\<rparr>"
       and fs = "[]"]
  from T accepted_jpeg show ?thesis by simp
qed

text \<open>
  C1 as worded fails twice. In a drop of two files that both meet the condition,
  neither is uploaded: the dropzone takes one file. And a file named \<open>notes.png\<close> of
  MIME type \<open>text/plain\<close> is uploaded: the dropzone accepts it by its extension.
\<close>

theorem onDrop_two_files_and_extension_counterexample:
  "spec_accepts \<lparr>name_f = ''front.jpg'', type_f = ''image/jpeg'', size_f = 1000\<rparr>
   \<and> spec_accepts \<lparr>name_f = ''back.png'', type_f = ''image/png'', size_f = 2000\<rparr>
   \<and> ImageUpload_drop
        \<lparr>invalid_type_text = ''File type must be image/jpeg,.jpg,.jpeg,image/png,.png'',
         too_large_text = ''File is larger than 10485760 bytes''\<rparr>
        [\<lparr>name_f = ''front.jpg'', type_f = ''image/jpeg'', size_f = 1000\<rparr>,
         \<lparr>name_f = ''back.png'', type_f = ''image/png'', size_f = 2000\<rparr>]
       = Inr \<lparr>validationError = Some ''Too many files'', uploaded = []\<rparr>
   \<and> \<not> drop_meets_spec
        \<lparr>invalid_type_text = ''File type must be image/jpeg,.jpg,.jpeg,image/png,.png'',
         too_large_text = ''File is larger than 10485760 bytes''\<rparr>
        [\<lparr>name_f = ''front.jpg'', type_f = ''image/jpeg'', size_f = 1000\<rparr>,
         \<lparr>name_f = ''back.png'', type_f = ''image/png'', size_f = 2000\<rparr>]
   \<and> \<not> spec_accepts \<lparr>name_f = ''notes.png'', type_f = ''text/plain'', size_f = 1000\<rparr>
   \<and> ImageUpload_drop
        \<lparr>invalid_type_text = ''File type must be image/jpeg,.jpg,.jpeg,image/png,.png'',
         too_large_text = ''File is larger than 10485760 bytes''\<rparr>
        [\<lparr>name_f = ''notes.png'', type_f = ''text/plain'', size_f = 1000\<rparr>]
       = Inr \<lparr>validationError = None,
              uploaded = [\<lparr>name_f = ''notes.png'', type_f = ''text/plain'', size_f = 1000\<rparr>]\<rparr>
   \<and> \<not> drop_meets_spec
        \<lparr>invalid_type_text = ''File type must be image/jpeg,.jpg,.jpeg,image/png,.png'',
         too_large_text = ''File is larger than 10485760 bytes''\<rparr>
        [\<lparr>name_f = ''notes.png'', type_f = ''text/plain'', size_f = 1000\<rparr>]"
proof -
  let ?T = "\<lparr>invalid_type_text = ''File type must be image/jpeg,.jpg,.jpeg,image/png,.png'',
         too_large_text = ''File is larger than 10485760 bytes''\<rparr>"
  let ?a = "\<lparr>name_f = ''front.jpg'', type_f = ''image/jpeg'', size_f = 1000\<rparr>"
  let ?b = "\<lparr>name_f = ''back.png'', type_f = ''image/png'', size_f = 2000\<rparr>"
  let ?n = "\<lparr>name_f = ''notes.png'', type_f = ''text/plain'', size_f = 1000\<rparr>"
  have acc: "accepted_type ?a" "accepted_type ?b" "accepted_type ?n"
    by (simp_all add: accepted_type_def toLowerCase_def endsWith_def)
  have sp: "spec_accepts ?a" "spec_accepts ?b" "\<not> spec_accepts ?n"
    by (simp_all add: spec_accepts_def)
  have pass: "file_errors ImageUpload_options ?T ?a = []"
    "file_errors ImageUpload_options ?T ?b = []" "file_errors ImageUpload_options ?T ?n = []"
    using acc by (simp_all add: passes_ImageUpload)
  have two: "ImageUpload_drop ?T [?a, ?b] =
      Inr \<lparr>validationError = Some ''Too many files'', uploaded = []\<rparr>"
    using drop_all_pass [of ?T "[?a, ?b]"] pass by simp
  have one: "ImageUpload_drop ?T [?n] = Inr \<lparr>validationError = None, uploaded = [?n]\<rparr>"
    using drop_all_pass [of ?T "[?n]"] pass by simp
  have n2: "\<not> drop_meets_spec ?T [?a, ?b]"
    unfolding drop_meets_spec_def two using sp by simp
  have n1: "\<not> drop_meets_spec ?T [?n]"
    unfolding drop_meets_spec_def one using sp by simp
  from sp two n2 one n1 show ?thesis by (intro conjI)
qed

section \<open>Properties of the record display\<close>

lemma render_field_Some:
  "render_field obj (i, k, l) = Some r \<longleftrightarrow>
     (truthy (get_opt obj k) \<and>
      r = \<lparr>key_r = k, label_r = l, value_r = get_opt obj k,
           background = (if i mod 2 = 0 then ''bg-gray-50'' else ''bg-white'')\<rparr>)"
  by (auto simp: render_field_def Let_def)

lemma render_field_None:
  "render_field obj (i, k, l) = None \<longleftrightarrow> \<not> truthy (get_opt obj k)"
  by (auto simp: render_field_def Let_def)

lemma keys_of_rows:
  "map key_r (List.map_filter (render_field obj) (enumerate n kls)) =
     map fst (filter (\<lambda>(k, l). truthy (get_opt obj k)) kls)"
proof (induction kls arbitrary: n)
  case Nil
  show ?case by (simp add: List.map_filter_simps)
next
  case (Cons kl kls)
  obtain k l where kl: "kl = (k, l)" by (cases kl)
  show ?case
  proof (cases "render_field obj (n, k, l)")
    case None
    moreover from None have "\<not> truthy (get_opt obj k)"
      by (simp add: render_field_None)
    ultimately show ?thesis using Cons.IH [of "Suc n"]
      by (simp add: kl List.map_filter_simps)
  next
    case (Some r)
    then have "truthy (get_opt obj k)" "key_r r = k"
      by (auto simp: render_field_Some)
    then show ?thesis using Cons.IH [of "Suc n"] Some
      by (simp add: kl List.map_filter_simps)
  qed
qed

lemma rows_sound:
  "r \<in> set (List.map_filter (render_field obj) (enumerate n kls)) \<Longrightarrow>
     (key_r r, label_r r) \<in> set kls \<and> value_r r = get_opt obj (key_r r)
     \<and> truthy (value_r r)"
proof (induction kls arbitrary: n)
  case Nil
  then show ?case by (simp add: List.map_filter_simps)
next
  case (Cons kl kls)
  obtain k l where kl: "kl = (k, l)" by (cases kl)
  show ?case
  proof (cases "render_field obj (n, k, l)")
    case None
    with Cons.prems have "r \<in> set (List.map_filter (render_field obj) (enumerate (Suc n) kls))"
      by (simp add: kl List.map_filter_simps)
    from Cons.IH [OF this] show ?thesis by auto
  next
    case (Some r')
    with Cons.prems have
      "r = r' \<or> r \<in> set (List.map_filter (render_field obj) (enumerate (Suc n) kls))"
      by (simp add: kl List.map_filter_simps)
    then show ?thesis
    proof
      assume "r = r'"
      with Some show ?thesis by (auto simp: render_field_Some kl)
    next
      assume "r \<in> set (List.map_filter (render_field obj) (enumerate (Suc n) kls))"
      from Cons.IH [OF this] show ?thesis by auto
    qed
  qed
qed

lemma rows_complete:
  "(k, l) \<in> set kls \<Longrightarrow> truthy (get_opt obj k) \<Longrightarrow>
     \<exists>r \<in> set (List.map_filter (render_field obj) (enumerate n kls)).
        key_r r = k \<and> label_r r = l \<and> value_r r = get_opt obj k"
proof (induction kls arbitrary: n)
  case Nil
  then show ?case by simp
next
  case (Cons kl kls)
  obtain k' l' where kl: "kl = (k', l')" by (cases kl)
  show ?case
  proof (cases "(k, l) = kl")
    case True
    have "render_field obj (n, k, l) =
            Some \<lparr>key_r = k, label_r = l, value_r = get_opt obj k,
                   background = (if n mod 2 = 0 then ''bg-gray-50'' else ''bg-white'')\<rparr>"
      using Cons.prems(2) by (simp add: render_field_Some)
    with True show ?thesis
      by (auto simp: List.map_filter_simps)
  next
    case False
    with Cons.prems have "(k, l) \<in> set kls" by simp
    from Cons.IH [OF this Cons.prems(2), of "Suc n"] show ?thesis
      by (auto simp: kl List.map_filter_simps split: option.splits)
  qed
qed

lemma field_row:
  assumes "(k, l) \<in> set fieldLabels"
  shows "if truthy (get_opt obj k)
         then \<exists>r \<in> set (KTPDisplay_rows obj).
                key_r r = k \<and> label_r r = l \<and> value_r r = get_opt obj k
         else k \<notin> key_r ` set (KTPDisplay_rows obj)"
proof (cases "truthy (get_opt obj k)")
  case True
  with rows_complete [OF assms True, of 0] show ?thesis
    by (simp add: KTPDisplay_rows_def)
next
  case False
  have "key_r r \<noteq> k" if "r \<in> set (KTPDisplay_rows obj)" for r
    using rows_sound [of r obj 0 fieldLabels] that False
    by (auto simp: KTPDisplay_rows_def)
  with False show ?thesis by auto
qed

lemma map_of_optional_property:
  "map_of (optional_property k' v) k = (if k = k' then map_option JStr v else None)"
  by (cases v) (simp_all add: optional_property_def)

lemma properties_of_KTPData:
  "get_opt (js_of_KTPData d) ''nik'' = JStr (nik d)"
  "get_opt (js_of_KTPData d) ''name'' = JStr (name d)"
  "get_opt (js_of_KTPData d) ''birth_place'' = JStr (birth_place d)"
  "get_opt (js_of_KTPData d) ''birth_date'' = JStr (birth_date d)"
  "get_opt (js_of_KTPData d) ''gender'' = JStr (Gender_literal (gender d))"
  "get_opt (js_of_KTPData d) ''address'' = JStr (address d)"
  "get_opt (js_of_KTPData d) ''blood_type'' =
     (case blood_type d of None \<Rightarrow> JUndefined | Some b \<Rightarrow> JStr (BloodType_literal b))"
  "get_opt (js_of_KTPData d) ''religion'' =
     (case religion d of None \<Rightarrow> JUndefined | Some s \<Rightarrow> JStr s)"
  "get_opt (js_of_KTPData d) ''marital_status'' =
     (case marital_status d of None \<Rightarrow> JUndefined | Some s \<Rightarrow> JStr s)"
  "get_opt (js_of_KTPData d) ''occupation'' =
     (case occupation d of None \<Rightarrow> JUndefined | Some s \<Rightarrow> JStr s)"
  "get_opt (js_of_KTPData d) ''nationality'' =
     (case nationality d of None \<Rightarrow> JUndefined | Some s \<Rightarrow> JStr s)"
  "get_opt (js_of_KTPData d) ''valid_until'' =
     (case valid_until d of None \<Rightarrow> JUndefined | Some s \<Rightarrow> JStr s)"
  by (simp_all add: js_of_KTPData_def map_add_def map_of_optional_property
      split: option.splits)

lemma value_is_string:
  "(k, l) \<in> set fieldLabels \<Longrightarrow>
     get_opt (js_of_KTPData d) k = JUndefined \<or> (\<exists>s. get_opt (js_of_KTPData d) k = JStr s)"
  by (auto simp: fieldLabels_def properties_of_KTPData split: option.splits)

lemma typed_rows_drawable: "rows_drawable (KTPDisplay_rows (js_of_KTPData d))"
proof -
  have "draw_child (value_r r) \<noteq> None" if "r \<in> set (KTPDisplay_rows (js_of_KTPData d))" for r
  proof -
    from rows_sound [of r "js_of_KTPData d" 0 fieldLabels] that have
      "(key_r r, label_r r) \<in> set fieldLabels"
      "value_r r = get_opt (js_of_KTPData d) (key_r r)"
      by (simp_all add: KTPDisplay_rows_def)
    with value_is_string [of "key_r r" "label_r r" d] show ?thesis by auto
  qed
  then show ?thesis by (simp add: rows_drawable_def list_all_iff)
qed

lemma labels:
  "(''nik'', ''NIK'') \<in> set fieldLabels"
  "(''name'', ''Nama'') \<in> set fieldLabels"
  "(''birth_place'', ''Tempat Lahir'') \<in> set fieldLabels"
  "(''birth_date'', ''Tanggal Lahir'') \<in> set fieldLabels"
  "(''gender'', ''Jenis Kelamin'') \<in> set fieldLabels"
  "(''address'', ''Alamat'') \<in> set fieldLabels"
  "(''blood_type'', ''Golongan Darah'') \<in> set fieldLabels"
  "(''religion'', ''Agama'') \<in> set fieldLabels"
  "(''marital_status'', ''Status Perkawinan'') \<in> set fieldLabels"
  "(''occupation'', ''Pekerjaan'') \<in> set fieldLabels"
  "(''nationality'', ''Kewarganegaraan'') \<in> set fieldLabels"
  "(''valid_until'', ''Berlaku Hingga'') \<in> set fieldLabels"
  by (simp_all add: fieldLabels_def)

lemma required_row:
  assumes "(k, l) \<in> set fieldLabels" "get_opt (js_of_KTPData d) k = JStr s"
  shows "if s = [] then row_absent d k else row_shown d k l s"
  using field_row [OF assms(1), of "js_of_KTPData d"] assms(2)
  by (auto simp: row_absent_def row_shown_def split: if_splits)

lemma optional_row:
  assumes "(k, l) \<in> set fieldLabels"
    "get_opt (js_of_KTPData d) k = (case v of None \<Rightarrow> JUndefined | Some s \<Rightarrow> JStr s)"
  shows "case v of
           None \<Rightarrow> row_absent d k
         | Some s \<Rightarrow> if s = [] then row_absent d k else row_shown d k l s"
  using field_row [OF assms(1), of "js_of_KTPData d"] assms(2)
  by (cases v) (auto simp: row_absent_def row_shown_def split: if_splits)

lemma Gender_literal_not_empty: "Gender_literal g \<noteq> []"
  by (cases g) simp_all

lemma BloodType_literal_not_empty: "BloodType_literal b \<noteq> []"
  by (cases b) simp_all

text \<open>
  C8. For any value passed as \<open>data\<close> and each of the twelve entries of \<open>fieldLabels\<close>,
  the display has a row with that key, that label and the value of the field exactly
  when the value is truthy. Every row comes from an entry, and the rows are the truthy
  fields in the order of \<open>fieldLabels\<close>, one each. For a record of type \<open>KTPData\<close>,
  field by field: each of \<open>nik\<close>, \<open>name\<close>, \<open>birth_place\<close>, \<open>birth_date\<close> and \<open>address\<close>
  has its row, with its label and its text, unless it is the empty string, and then has
  none; \<open>gender\<close> always has its row; each optional field has its row when it is present
  and not empty, and none when it is absent or empty. So a record whose \<open>nik\<close> or \<open>name\<close>
  is empty shows no row for it, as it shows none for an absent \<open>religion\<close>.
\<close>

theorem KTPDisplay_row_iff_truthy:
  "(\<forall>(key, label) \<in> set fieldLabels.
      (\<exists>r \<in> set (KTPDisplay_rows obj).
          key_r r = key \<and> label_r r = label \<and> value_r r = get_opt obj key)
      = truthy (get_opt obj key))
   \<and> (\<forall>r \<in> set (KTPDisplay_rows obj).
        (key_r r, label_r r) \<in> set fieldLabels \<and> value_r r = get_opt obj (key_r r))
   \<and> map key_r (KTPDisplay_rows obj) =
       map fst (filter (\<lambda>(k, l). truthy (get_opt obj k)) fieldLabels)
   \<and> KTPDisplay (js_of_KTPData d) = Inr (KTPDisplay_rows (js_of_KTPData d))
   \<and> rows_drawable (KTPDisplay_rows (js_of_KTPData d))
   \<and> (if nik d = [] then row_absent d ''nik'' else row_shown d ''nik'' ''NIK'' (nik d))
   \<and> (if name d = [] then row_absent d ''name'' else row_shown d ''name'' ''Nama'' (name d))
   \<and> (if birth_place d = [] then row_absent d ''birth_place''
       else row_shown d ''birth_place'' ''Tempat Lahir'' (birth_place d))
   \<and> (if birth_date d = [] then row_absent d ''birth_date''
       else row_shown d ''birth_date'' ''Tanggal Lahir'' (birth_date d))
   \<and> row_shown d ''gender'' ''Jenis Kelamin'' (Gender_literal (gender d))
   \<and> (if address d = [] then row_absent d ''address''
       else row_shown d ''address'' ''Alamat'' (address d))
   \<and> (case blood_type d of
         None \<Rightarrow> row_absent d ''blood_type''
       | Some b \<Rightarrow> row_shown d ''blood_type'' ''Golongan Darah'' (BloodType_literal b))
   \<and> (case religion d of
         None \<Rightarrow> row_absent d ''religion''
       | Some s \<Rightarrow> if s = [] then row_absent d ''religion''
                   else row_shown d ''religion'' ''Agama'' s)
   \<and> (case marital_status d of
         None \<Rightarrow> row_absent d ''marital_status''
       | Some s \<Rightarrow> if s = [] then row_absent d ''marital_status''
                   else row_shown d ''marital_status'' ''Status Perkawinan'' s)
   \<and> (case occupation d of
         None \<Rightarrow> row_absent d ''occupation''
       | Some s \<Rightarrow> if s = [] then row_absent d ''occupation''
                   else row_shown d ''occupation'' ''Pekerjaan'' s)
   \<and> (case nationality d of
         None \<Rightarrow> row_absent d ''nationality''
       | Some s \<Rightarrow> if s = [] then row_absent d ''nationality''
                   else row_shown d ''nationality'' ''Kewarganegaraan'' s)
   \<and> (case valid_until d of
         None \<Rightarrow> row_absent d ''valid_until''
       | Some s \<Rightarrow> if s = [] then row_absent d ''valid_until''
                   else row_shown d ''valid_until'' ''Berlaku Hingga'' s)"
proof -
  have iff: "(\<exists>r \<in> set (KTPDisplay_rows obj).
          key_r r = k \<and> label_r r = l \<and> value_r r = get_opt obj k)
        = truthy (get_opt obj k)"
    if "(k, l) \<in> set fieldLabels" for k l
    using field_row [OF that, of obj] by (cases "truthy (get_opt obj k)") auto
  then have g1: "\<forall>(key, label) \<in> set fieldLabels.
      (\<exists>r \<in> set (KTPDisplay_rows obj).
          key_r r = key \<and> label_r r = label \<and> value_r r = get_opt obj key)
      = truthy (get_opt obj key)"
    by blast
  have g2: "\<forall>r \<in> set (KTPDisplay_rows obj).
        (key_r r, label_r r) \<in> set fieldLabels \<and> value_r r = get_opt obj (key_r r)"
    using rows_sound [of _ obj 0 fieldLabels] by (simp add: KTPDisplay_rows_def)
  have g3: "map key_r (KTPDisplay_rows obj) =
       map fst (filter (\<lambda>(k, l). truthy (get_opt obj k)) fieldLabels)"
    by (simp add: KTPDisplay_rows_def keys_of_rows)
  have g4: "KTPDisplay (js_of_KTPData d) = Inr (KTPDisplay_rows (js_of_KTPData d))"
    by (simp add: KTPDisplay_def js_of_KTPData_def)
  note g5 = typed_rows_drawable [of d]
  note r1 = required_row [OF labels(1) properties_of_KTPData(1), of d]
  note r2 = required_row [OF labels(2) properties_of_KTPData(2), of d]
  note r3 = required_row [OF labels(3) properties_of_KTPData(3), of d]
  note r4 = required_row [OF labels(4) properties_of_KTPData(4), of d]
  have r5: "row_shown d ''gender'' ''Jenis Kelamin'' (Gender_literal (gender d))"
    using required_row [OF labels(5) properties_of_KTPData(5), of d]
    by (simp add: Gender_literal_not_empty)
  note r6 = required_row [OF labels(6) properties_of_KTPData(6), of d]
  have r7: "case blood_type d of
         None \<Rightarrow> row_absent d ''blood_type''
       | Some b \<Rightarrow> row_shown d ''blood_type'' ''Golongan Darah'' (BloodType_literal b)"
    using optional_row [OF labels(7), of d "map_option BloodType_literal (blood_type d)"]
      properties_of_KTPData(7) [of d]
    by (cases "blood_type d") (simp_all add: BloodType_literal_not_empty)
  note r8 = optional_row [OF labels(8) properties_of_KTPData(8), of d]
  note r9 = optional_row [OF labels(9) properties_of_KTPData(9), of d]
  note r10 = optional_row [OF labels(10) properties_of_KTPData(10), of d]
  note r11 = optional_row [OF labels(11) properties_of_KTPData(11), of d]
  note r12 = optional_row [OF labels(12) properties_of_KTPData(12), of d]
  from g1 g2 g3 g4 g5 r1 r2 r3 r4 r5 r6 r7 r8 r9 r10 r11 r12 show ?thesis
    by (intro conjI)
qed

theorem KTPDisplay_row_iff_truthy_witness:
  "nik (partialData\<lparr>nik := [], name := []\<rparr>) = []
   \<and> name (partialData\<lparr>nik := [], name := []\<rparr>) = []
   \<and> religion (partialData\<lparr>nik := [], name := []\<rparr>) = None
   \<and> (''birth_date'', ''Tanggal Lahir'') \<in> set fieldLabels
   \<and> truthy (get_opt (js_of_KTPData (partialData\<lparr>nik := [], name := []\<rparr>)) ''birth_date'')
   \<and> row_absent (partialData\<lparr>nik := [], name := []\<rparr>) ''nik''
   \<and> row_absent (partialData\<lparr>nik := [], name := []\<rparr>) ''name''
   \<and> row_absent (partialData\<lparr>nik := [], name := []\<rparr>) ''religion''
   \<and> row_shown (partialData\<lparr>nik := [], name := []\<rparr>) ''birth_date'' ''Tanggal Lahir''
        ''1990-04-25''
   \<and> row_shown (partialData\<lparr>nik := [], name := []\<rparr>) ''gender'' ''Jenis Kelamin'' ''LAKI-LAKI''
   \<and> map key_r (KTPDisplay_rows (js_of_KTPData (partialData\<lparr>nik := [], name := []\<rparr>))) =
       [''birth_place'', ''birth_date'', ''gender'', ''address'']"
proof -
  let ?d = "partialData\<lparr>nik := [], name := []\<rparr>"
  note T = KTPDisplay_row_iff_truthy [where d = ?d and obj = "js_of_KTPData ?d"]
  have f: "nik ?d = []" "name ?d = []" "religion ?d = None" "birth_date ?d = ''1990-04-25''"
    "gender ?d = LAKI_LAKI"
    by (simp_all add: partialData_def)
  have l: "(''birth_date'', ''Tanggal Lahir'') \<in> set fieldLabels"
    by (simp add: fieldLabels_def)
  have t: "truthy (get_opt (js_of_KTPData ?d) ''birth_date'')"
    by (simp add: properties_of_KTPData f)
  from T f have a: "row_absent ?d ''nik''" "row_absent ?d ''name''" "row_absent ?d ''religion''"
    "row_shown ?d ''birth_date'' ''Tanggal Lahir'' ''1990-04-25''"
    "row_shown ?d ''gender'' ''Jenis Kelamin'' ''LAKI-LAKI''"
    by simp_all
  from T have "map key_r (KTPDisplay_rows (js_of_KTPData ?d)) =
       map fst (filter (\<lambda>(k, l). truthy (get_opt (js_of_KTPData ?d) k)) fieldLabels)"
    by blast
  also have "\<dots> = [''birth_place'', ''birth_date'', ''gender'', ''address'']"
    by (simp add: fieldLabels_def properties_of_KTPData partialData_def)
  finally have k: "map key_r (KTPDisplay_rows (js_of_KTPData ?d)) =
       [''birth_place'', ''birth_date'', ''gender'', ''address'']" .
  from f(1,2,3) l t a k show ?thesis by (intro conjI)
qed

section \<open>Properties of the upload handler\<close>

lemma run_Nil: "run url [] w = w"
  by (simp add: run_def)

lemma run_Cons: "run url (ev # evs) w = run url evs (step url ev w)"
  by (simp add: run_def)

lemma run_append: "run url (xs @ ys) w = run url ys (run url xs w)"
  by (simp add: run_def)

lemma run_LoadEnd:
  "list_all is_LoadEnd evs \<Longrightarrow> \<exists>p. run url evs w = w\<lparr>app := (app w)\<lparr>imagePreview := p\<rparr>\<rparr>"
proof (induction evs arbitrary: w)
  case Nil
  have "run url [] w = w\<lparr>app := (app w)\<lparr>imagePreview := imagePreview (app w)\<rparr>\<rparr>"
    by (simp add: run_Nil)
  then show ?case ..
next
  case (Cons ev evs)
  from Cons.prems obtain r where ev: "ev = LoadEnd r" by (cases ev) simp_all
  from Cons.prems have "list_all is_LoadEnd evs" by simp
  from Cons.IH [OF this, of "onloadend r w"] obtain p where
    "run url evs (onloadend r w) = (onloadend r w)\<lparr>app := (app (onloadend r w))\<lparr>imagePreview := p\<rparr>\<rparr>"
    by blast
  then have "run url (ev # evs) w = w\<lparr>app := (app w)\<lparr>imagePreview := p\<rparr>\<rparr>"
    by (simp add: run_Cons ev step_def onloadend_def)
  then show ?case ..
qed

lemma upload_rejected_run:
  assumes "list_all is_LoadEnd rs1"
  shows "run url (rs1 @ [UploadSettled (Rejected err)]) (handleUpload url f w) =
     w\<lparr>app := (app w)\<lparr>loading := False, error := caught_message err, imagePreview := None\<rparr>,
       awaiting := None,
       sent := sent w @ [POST (url @ ''/upload'') \<lparr>entries = [(''file'', f)]\<rparr>]\<rparr>"
proof -
  from run_LoadEnd [OF assms, of url "handleUpload url f w"] obtain p where
    "run url rs1 (handleUpload url f w) =
       (handleUpload url f w)\<lparr>app := (app (handleUpload url f w))\<lparr>imagePreview := p\<rparr>\<rparr>"
    by blast
  then show ?thesis
    by (simp add: run_append run_Cons run_Nil step_def upload_settled_def catch_finally_def
        handleUpload_def)
qed

lemma upload_fulfilled_run:
  assumes "list_all is_LoadEnd rs1" "list_all is_LoadEnd rs2"
  shows "\<exists>p. run url (rs1 @ [UploadSettled (Fulfilled r1)] @ rs2) (handleUpload url f w) =
     w\<lparr>app := (app w)\<lparr>loading := True, error := JNull, imagePreview := p\<rparr>,
       awaiting := Some (AwaitExtract \<lparr>entries = [(''file'', f)]\<rparr>),
       sent := sent w @ [POST (url @ ''/upload'') \<lparr>entries = [(''file'', f)]\<rparr>,
                         POST (url @ ''/extract'') \<lparr>entries = [(''file'', f)]\<rparr>]\<rparr>"
proof -
  define w0 where "w0 = handleUpload url f w"
  from run_LoadEnd [OF assms(1), of url w0] obtain p where p:
    "run url rs1 w0 = w0\<lparr>app := (app w0)\<lparr>imagePreview := p\<rparr>\<rparr>"
    by blast
  define w1 where "w1 = step url (UploadSettled (Fulfilled r1)) (run url rs1 w0)"
  from run_LoadEnd [OF assms(2), of url w1] obtain q where q:
    "run url rs2 w1 = w1\<lparr>app := (app w1)\<lparr>imagePreview := q\<rparr>\<rparr>"
    by blast
  have split: "run url (rs1 @ [UploadSettled (Fulfilled r1)] @ rs2) w0 = run url rs2 w1"
    by (simp only: run_append run_Cons run_Nil w1_def)
  have "w1 = step url (UploadSettled (Fulfilled r1)) (w0\<lparr>app := (app w0)\<lparr>imagePreview := p\<rparr>\<rparr>)"
    by (simp only: w1_def p)
  also have "\<dots> = w\<lparr>app := (app w)\<lparr>loading := True, error := JNull, imagePreview := p\<rparr>,
       awaiting := Some (AwaitExtract \<lparr>entries = [(''file'', f)]\<rparr>),
       sent := sent w @ [POST (url @ ''/upload'') \<lparr>entries = [(''file'', f)]\<rparr>,
                         POST (url @ ''/extract'') \<lparr>entries = [(''file'', f)]\<rparr>]\<rparr>"
    by (simp add: w0_def step_def upload_settled_def handleUpload_def)
  finally have w1: "w1 = w\<lparr>app := (app w)\<lparr>loading := True, error := JNull, imagePreview := p\<rparr>,
       awaiting := Some (AwaitExtract \<lparr>entries = [(''file'', f)]\<rparr>),
       sent := sent w @ [POST (url @ ''/upload'') \<lparr>entries = [(''file'', f)]\<rparr>,
                         POST (url @ ''/extract'') \<lparr>entries = [(''file'', f)]\<rparr>]\<rparr>" .
  have "run url (rs1 @ [UploadSettled (Fulfilled r1)] @ rs2) (handleUpload url f w) =
          run url rs2 w1"
    using split by (simp only: w0_def)
  also have "\<dots> = w1\<lparr>app := (app w1)\<lparr>imagePreview := q\<rparr>\<rparr>"
    by (rule q)
  also have "\<dots> =
     w\<lparr>app := (app w)\<lparr>loading := True, error := JNull, imagePreview := q\<rparr>,
       awaiting := Some (AwaitExtract \<lparr>entries = [(''file'', f)]\<rparr>),
       sent := sent w @ [POST (url @ ''/upload'') \<lparr>entries = [(''file'', f)]\<rparr>,
                         POST (url @ ''/extract'') \<lparr>entries = [(''file'', f)]\<rparr>]\<rparr>"
    unfolding w1 by simp
  finally show ?thesis by (rule exI [of _ q])
qed

lemma extract_rejected_run:
  assumes "list_all is_LoadEnd rs1" "list_all is_LoadEnd rs2"
  shows "run url (rs1 @ [UploadSettled (Fulfilled r1)] @ rs2 @ [ExtractSettled (Rejected err)])
           (handleUpload url f w) =
     w\<lparr>app := (app w)\<lparr>loading := False, error := caught_message err, imagePreview := None\<rparr>,
       awaiting := None,
       sent := sent w @ [POST (url @ ''/upload'') \<lparr>entries = [(''file'', f)]\<rparr>,
                         POST (url @ ''/extract'') \<lparr>entries = [(''file'', f)]\<rparr>]\<rparr>"
proof -
  from upload_fulfilled_run [OF assms, of url r1 f w] obtain p where
    "run url (rs1 @ [UploadSettled (Fulfilled r1)] @ rs2) (handleUpload url f w) =
     w\<lparr>app := (app w)\<lparr>loading := True, error := JNull, imagePreview := p\<rparr>,
       awaiting := Some (AwaitExtract \<lparr>entries = [(''file'', f)]\<rparr>),
       sent := sent w @ [POST (url @ ''/upload'') \<lparr>entries = [(''file'', f)]\<rparr>,
                         POST (url @ ''/extract'') \<lparr>entries = [(''file'', f)]\<rparr>]\<rparr>"
    by blast
  then have "run url ((rs1 @ [UploadSettled (Fulfilled r1)] @ rs2) @ [ExtractSettled (Rejected err)])
           (handleUpload url f w) =
     w\<lparr>app := (app w)\<lparr>loading := False, error := caught_message err, imagePreview := None\<rparr>,
       awaiting := None,
       sent := sent w @ [POST (url @ ''/upload'') \<lparr>entries = [(''file'', f)]\<rparr>,
                         POST (url @ ''/extract'') \<lparr>entries = [(''file'', f)]\<rparr>]\<rparr>"
    unfolding run_append [of url "rs1 @ [UploadSettled (Fulfilled r1)] @ rs2"]
    by (simp add: run_Cons run_Nil step_def extract_settled_def catch_finally_def)
  then show ?thesis by (simp only: append_assoc)
qed

lemma extract_fulfilled_run:
  assumes "list_all is_LoadEnd rs1" "list_all is_LoadEnd rs2" "\<not> nullish body"
  shows "\<exists>p. run url (rs1 @ [UploadSettled (Fulfilled r1)] @ rs2
                  @ [ExtractSettled (Fulfilled \<lparr>status = st, data = body\<rparr>)])
           (handleUpload url f w) =
     w\<lparr>app := (app w)\<lparr>ktpData := get_opt body ''ktp_data'', loading := False, error := JNull,
                      imagePreview := p\<rparr>,
       awaiting := None,
       sent := sent w @ [POST (url @ ''/upload'') \<lparr>entries = [(''file'', f)]\<rparr>,
                         POST (url @ ''/extract'') \<lparr>entries = [(''file'', f)]\<rparr>]\<rparr>"
proof -
  from upload_fulfilled_run [OF assms(1,2), of url r1 f w] obtain p where
    "run url (rs1 @ [UploadSettled (Fulfilled r1)] @ rs2) (handleUpload url f w) =
     w\<lparr>app := (app w)\<lparr>loading := True, error := JNull, imagePreview := p\<rparr>,
       awaiting := Some (AwaitExtract \<lparr>entries = [(''file'', f)]\<rparr>),
       sent := sent w @ [POST (url @ ''/upload'') \<lparr>entries = [(''file'', f)]\<rparr>,
                         POST (url @ ''/extract'') \<lparr>entries = [(''file'', f)]\<rparr>]\<rparr>"
    by blast
  then have "run url ((rs1 @ [UploadSettled (Fulfilled r1)] @ rs2)
                  @ [ExtractSettled (Fulfilled \<lparr>status = st, data = body\<rparr>)])
           (handleUpload url f w) =
     w\<lparr>app := (app w)\<lparr>ktpData := get_opt body ''ktp_data'', loading := False, error := JNull,
                      imagePreview := p\<rparr>,
       awaiting := None,
       sent := sent w @ [POST (url @ ''/upload'') \<lparr>entries = [(''file'', f)]\<rparr>,
                         POST (url @ ''/extract'') \<lparr>entries = [(''file'', f)]\<rparr>]\<rparr>"
    unfolding run_append [of url "rs1 @ [UploadSettled (Fulfilled r1)] @ rs2"]
    using assms(3)
    by (simp add: run_Cons run_Nil step_def extract_settled_def get_prop_def)
  then have "run url (rs1 @ [UploadSettled (Fulfilled r1)] @ rs2
                  @ [ExtractSettled (Fulfilled \<lparr>status = st, data = body\<rparr>)])
           (handleUpload url f w) =
     w\<lparr>app := (app w)\<lparr>ktpData := get_opt body ''ktp_data'', loading := False, error := JNull,
                      imagePreview := p\<rparr>,
       awaiting := None,
       sent := sent w @ [POST (url @ ''/upload'') \<lparr>entries = [(''file'', f)]\<rparr>,
                         POST (url @ ''/extract'') \<lparr>entries = [(''file'', f)]\<rparr>]\<rparr>"
    by (simp only: append_assoc)
  then show ?thesis by (rule exI [of _ p])
qed

lemma extract_nobody_run:
  assumes "list_all is_LoadEnd rs1" "list_all is_LoadEnd rs2" "nullish body"
  shows "run url (rs1 @ [UploadSettled (Fulfilled r1)] @ rs2
                  @ [ExtractSettled (Fulfilled \<lparr>status = st, data = body\<rparr>)])
           (handleUpload url f w) =
     w\<lparr>app := (app w)\<lparr>loading := False, error := caught_message OtherThrown,
                      imagePreview := None\<rparr>,
       awaiting := None,
       sent := sent w @ [POST (url @ ''/upload'') \<lparr>entries = [(''file'', f)]\<rparr>,
                         POST (url @ ''/extract'') \<lparr>entries = [(''file'', f)]\<rparr>]\<rparr>"
proof -
  from upload_fulfilled_run [OF assms(1,2), of url r1 f w] obtain p where
    "run url (rs1 @ [UploadSettled (Fulfilled r1)] @ rs2) (handleUpload url f w) =
     w\<lparr>app := (app w)\<lparr>loading := True, error := JNull, imagePreview := p\<rparr>,
       awaiting := Some (AwaitExtract \<lparr>entries = [(''file'', f)]\<rparr>),
       sent := sent w @ [POST (url @ ''/upload'') \<lparr>entries = [(''file'', f)]\<rparr>,
                         POST (url @ ''/extract'') \<lparr>entries = [(''file'', f)]\<rparr>]\<rparr>"
    by blast
  then have "run url ((rs1 @ [UploadSettled (Fulfilled r1)] @ rs2)
                  @ [ExtractSettled (Fulfilled \<lparr>status = st, data = body\<rparr>)])
           (handleUpload url f w) =
     w\<lparr>app := (app w)\<lparr>loading := False, error := caught_message OtherThrown,
                      imagePreview := None\<rparr>,
       awaiting := None,
       sent := sent w @ [POST (url @ ''/upload'') \<lparr>entries = [(''file'', f)]\<rparr>,
                         POST (url @ ''/extract'') \<lparr>entries = [(''file'', f)]\<rparr>]\<rparr>"
    unfolding run_append [of url "rs1 @ [UploadSettled (Fulfilled r1)] @ rs2"]
    using assms(3)
    by (simp add: run_Cons run_Nil step_def extract_settled_def get_prop_def catch_finally_def)
  then show ?thesis by (simp only: append_assoc)
qed

lemma step_extract_not_started:
  assumes "\<not> is_upload_fulfilled ev" "extract_not_started url w"
  shows "extract_not_started url (step url ev w)"
proof (cases ev)
  case (Upload f)
  with assms(2) show ?thesis
    by (simp add: step_def handleUpload_def extract_not_started_def)
next
  case (LoadEnd r)
  with assms(2) show ?thesis
    by (simp add: step_def onloadend_def extract_not_started_def)
next
  case (UploadSettled outcome)
  with assms(1) obtain err where "outcome = Rejected err" by (cases outcome) simp_all
  with assms(2) UploadSettled show ?thesis
    by (simp add: step_def upload_settled_def catch_finally_def extract_not_started_def
        split: option.splits suspended.splits)
next
  case (ExtractSettled outcome)
  with assms(2) show ?thesis
    by (simp add: step_def extract_settled_def extract_not_started_def catch_finally_def
        split: option.splits suspended.splits settled.splits sum.splits)
next
  case Reset
  with assms(2) show ?thesis
    by (simp add: step_def handleReset_def extract_not_started_def)
qed

lemma run_extract_not_started:
  "list_all (\<lambda>ev. \<not> is_upload_fulfilled ev) evs \<Longrightarrow> extract_not_started url w \<Longrightarrow>
     extract_not_started url (run url evs w)"
  by (induction evs arbitrary: w) (simp_all add: run_Nil run_Cons step_extract_not_started)

lemma step_idle_not_loading:
  assumes "idle_not_loading w"
  shows "idle_not_loading (step url ev w)"
proof (cases ev)
  case (Upload f)
  with assms show ?thesis
    by (simp add: step_def handleUpload_def idle_not_loading_def)
next
  case (LoadEnd r)
  with assms show ?thesis
    by (simp add: step_def onloadend_def idle_not_loading_def split: option.splits)
next
  case (UploadSettled outcome)
  with assms show ?thesis
    by (simp add: step_def upload_settled_def catch_finally_def idle_not_loading_def
        split: option.splits suspended.splits settled.splits)
next
  case (ExtractSettled outcome)
  with assms show ?thesis
    by (simp add: step_def extract_settled_def catch_finally_def idle_not_loading_def
        split: option.splits suspended.splits settled.splits sum.splits)
next
  case Reset
  with assms show ?thesis
    by (simp add: step_def handleReset_def idle_not_loading_def split: option.splits)
qed

lemma run_idle_not_loading:
  "idle_not_loading w \<Longrightarrow> idle_not_loading (run url evs w)"
  by (induction evs arbitrary: w) (simp_all add: run_Nil run_Cons step_idle_not_loading)

lemma truthy_not_nullish: "truthy v \<Longrightarrow> v \<noteq> JNull \<and> v \<noteq> JUndefined"
  by (cases v) simp_all

lemma caught_message_not_null: "caught_message err \<noteq> JNull \<and> caught_message err \<noteq> JUndefined"
proof (cases err)
  case (IsAxiosError e)
  show ?thesis
    using truthy_not_nullish [of "get_opt (response_data e) ''error''"]
      truthy_not_nullish [of "get_opt (get_opt (response_data e) ''detail'') ''error''"]
    by (simp add: IsAxiosError caught_message_def errorMessage_def js_or_def)
next
  case OtherThrown
  then show ?thesis by (simp add: caught_message_def)
qed

lemma full_match_digits:
  "full_match (replicate n Digit) s \<longleftrightarrow> length s = n \<and> list_all is_digit s"
proof (induction n arbitrary: s)
  case 0
  show ?case by auto
next
  case (Suc n)
  show ?case by (cases s) (auto simp: Suc.IH)
qed

lemma step_displayed_record:
  assumes "served_checked P ev" "displayed_record P w"
  shows "displayed_record P (step url ev w)"
proof (cases ev)
  case (Upload f)
  with assms(2) show ?thesis
    by (simp add: step_def handleUpload_def displayed_record_def)
next
  case (LoadEnd r)
  with assms(2) show ?thesis
    by (simp add: step_def onloadend_def displayed_record_def)
next
  case (UploadSettled outcome)
  with assms(2) show ?thesis
    by (simp add: step_def upload_settled_def catch_finally_def displayed_record_def
        split: option.splits suspended.splits settled.splits)
next
  case (ExtractSettled outcome)
  show ?thesis
  proof (cases outcome)
    case (Fulfilled extractResponse)
    with assms ExtractSettled show ?thesis
      by (auto simp: step_def extract_settled_def catch_finally_def displayed_record_def
          get_prop_def split: option.splits suspended.splits if_splits)
  next
    case (Rejected err)
    with assms(2) ExtractSettled show ?thesis
      by (simp add: step_def extract_settled_def catch_finally_def displayed_record_def
          split: option.splits suspended.splits)
  qed
next
  case Reset
  with assms(2) show ?thesis
    by (simp add: step_def handleReset_def displayed_record_def)
qed

lemma run_displayed_record:
  "list_all (served_checked P) evs \<Longrightarrow> displayed_record P w \<Longrightarrow>
     displayed_record P (run url evs w)"
  by (induction evs arbitrary: w) (simp_all add: run_Nil run_Cons step_displayed_record)

lemma api_extract_served: "served_checked field_validation (ExtractSettled (api_extract failure r))"
  by (simp add: api_extract_def)

lemma served_checked_mono:
  assumes "\<And>r. P r \<Longrightarrow> Q r" "served_checked P ev"
  shows "served_checked Q ev"
proof (cases ev)
  case (ExtractSettled outcome)
  with assms show ?thesis by (cases outcome) (auto split: if_splits)
qed simp_all

text \<open>
  C7. \<open>handleUpload\<close> first posts the form data holding the file to
  \<open>{API_URL}/upload\<close>. When that request is fulfilled, and only then, it posts the same
  form data to \<open>{API_URL}/extract\<close>; when the extract request is fulfilled the record
  on display is the \<open>ktp_data\<close> of the response body, whatever that is, and a record of
  type \<open>KTPData\<close> is shown by \<open>KTPDisplay\<close>. A fulfilled extract response whose body is
  \<open>null\<close> or \<open>undefined\<close> has no \<open>ktp_data\<close> to read: the read throws, and the call ends
  as a failure with the fixed error text. A rejected upload leaves the upload request
  as the only one sent. In any sequence of events without a fulfilled upload, no
  extract request is ever sent. The reader may finish at any point of the call.
\<close>

theorem handleUpload_posts_upload_then_extract:
  "sent (handleUpload url f w) = sent w @ [POST (url @ ''/upload'') \<lparr>entries = [(''file'', f)]\<rparr>]
   \<and> (list_all is_LoadEnd rs1 \<and> list_all is_LoadEnd rs2 \<longrightarrow>
        sent (run url (rs1 @ [UploadSettled (Fulfilled r1)] @ rs2) (handleUpload url f w)) =
          sent w @ [POST (url @ ''/upload'') \<lparr>entries = [(''file'', f)]\<rparr>,
                    POST (url @ ''/extract'') \<lparr>entries = [(''file'', f)]\<rparr>]
        \<and> sent (run url (rs1 @ [UploadSettled (Fulfilled r1)] @ rs2
                     @ [ExtractSettled (Fulfilled \<lparr>status = st, data = body\<rparr>)])
                 (handleUpload url f w)) =
          sent w @ [POST (url @ ''/upload'') \<lparr>entries = [(''file'', f)]\<rparr>,
                    POST (url @ ''/extract'') \<lparr>entries = [(''file'', f)]\<rparr>]
        \<and> ktpData (app (run url (rs1 @ [UploadSettled (Fulfilled r1)] @ rs2
                     @ [ExtractSettled (Fulfilled \<lparr>status = st, data = body\<rparr>)])
                 (handleUpload url f w))) =
          (if nullish body then ktpData (app w) else get_opt body ''ktp_data'')
        \<and> ktpData (app (run url (rs1 @ [UploadSettled (Fulfilled r1)] @ rs2
                     @ [ExtractSettled
                          (Fulfilled \<lparr>status = st, data = JObj [(''ktp_data'', k)]\<rparr>)])
                 (handleUpload url f w))) = k
        \<and> main_view_of (app (run url (rs1 @ [UploadSettled (Fulfilled r1)] @ rs2
                     @ [ExtractSettled
                          (Fulfilled \<lparr>status = st,
                                      data = JObj [(''ktp_data'', js_of_KTPData d)]\<rparr>)])
                 (handleUpload url f w))) = KTPDisplay_view (KTPDisplay_rows (js_of_KTPData d))
        \<and> app (run url (rs1 @ [UploadSettled (Fulfilled r1)] @ rs2
                     @ [ExtractSettled (Fulfilled \<lparr>status = st, data = JNull\<rparr>)])
                 (handleUpload url f w)) =
          (app w)\<lparr>loading := False,
                   error := JStr ''Failed to process KTP image. Please try again.'',
                   imagePreview := None\<rparr>
        \<and> app (run url (rs1 @ [UploadSettled (Fulfilled r1)] @ rs2
                     @ [ExtractSettled (Fulfilled \<lparr>status = st, data = JUndefined\<rparr>)])
                 (handleUpload url f w)) =
          (app w)\<lparr>loading := False,
                   error := JStr ''Failed to process KTP image. Please try again.'',
                   imagePreview := None\<rparr>
        \<and> sent (run url (rs1 @ [UploadSettled (Rejected err)]) (handleUpload url f w)) =
          sent w @ [POST (url @ ''/upload'') \<lparr>entries = [(''file'', f)]\<rparr>])
   \<and> (list_all (\<lambda>ev. \<not> is_upload_fulfilled ev) evs
        \<and> list_all (\<lambda>q. \<not> is_extract_request url q) (sent w) \<longrightarrow>
        list_all (\<lambda>q. \<not> is_extract_request url q) (sent (run url evs (handleUpload url f w))))"
proof -
  have first: "sent (handleUpload url f w) =
      sent w @ [POST (url @ ''/upload'') \<lparr>entries = [(''file'', f)]\<rparr>]"
    by (simp add: handleUpload_def)
  have got: "sent (run url (rs1 @ [UploadSettled (Fulfilled r1)] @ rs2
                     @ [ExtractSettled (Fulfilled \<lparr>status = st, data = b\<rparr>)])
                 (handleUpload url f w)) =
          sent w @ [POST (url @ ''/upload'') \<lparr>entries = [(''file'', f)]\<rparr>,
                    POST (url @ ''/extract'') \<lparr>entries = [(''file'', f)]\<rparr>]
        \<and> ktpData (app (run url (rs1 @ [UploadSettled (Fulfilled r1)] @ rs2
                     @ [ExtractSettled (Fulfilled \<lparr>status = st, data = b\<rparr>)])
                 (handleUpload url f w))) =
          (if nullish b then ktpData (app w) else get_opt b ''ktp_data'')
        \<and> loading (app (run url (rs1 @ [UploadSettled (Fulfilled r1)] @ rs2
                     @ [ExtractSettled (Fulfilled \<lparr>status = st, data = b\<rparr>)])
                 (handleUpload url f w))) = False"
    if rs: "list_all is_LoadEnd rs1" "list_all is_LoadEnd rs2" for b
  proof (cases "nullish b")
    case True
    note n = extract_nobody_run [OF rs True, of url r1 st f w]
    show ?thesis unfolding n using True by simp
  next
    case False
    from extract_fulfilled_run [OF rs False, of url r1 st f w] obtain q where
      b: "run url (rs1 @ [UploadSettled (Fulfilled r1)] @ rs2
                  @ [ExtractSettled (Fulfilled \<lparr>status = st, data = b\<rparr>)])
           (handleUpload url f w) =
       w\<lparr>app := (app w)\<lparr>ktpData := get_opt b ''ktp_data'', loading := False, error := JNull,
                        imagePreview := q\<rparr>,
         awaiting := None,
         sent := sent w @ [POST (url @ ''/upload'') \<lparr>entries = [(''file'', f)]\<rparr>,
                           POST (url @ ''/extract'') \<lparr>entries = [(''file'', f)]\<rparr>]\<rparr>"
      by blast
    show ?thesis unfolding b using False by simp
  qed
  have paths: "sent (run url (rs1 @ [UploadSettled (Fulfilled r1)] @ rs2) (handleUpload url f w)) =
          sent w @ [POST (url @ ''/upload'') \<lparr>entries = [(''file'', f)]\<rparr>,
                    POST (url @ ''/extract'') \<lparr>entries = [(''file'', f)]\<rparr>]
        \<and> sent (run url (rs1 @ [UploadSettled (Fulfilled r1)] @ rs2
                     @ [ExtractSettled (Fulfilled \<lparr>status = st, data = body\<rparr>)])
                 (handleUpload url f w)) =
          sent w @ [POST (url @ ''/upload'') \<lparr>entries = [(''file'', f)]\<rparr>,
                    POST (url @ ''/extract'') \<lparr>entries = [(''file'', f)]\<rparr>]
        \<and> ktpData (app (run url (rs1 @ [UploadSettled (Fulfilled r1)] @ rs2
                     @ [ExtractSettled (Fulfilled \<lparr>status = st, data = body\<rparr>)])
                 (handleUpload url f w))) =
          (if nullish body then ktpData (app w) else get_opt body ''ktp_data'')
        \<and> ktpData (app (run url (rs1 @ [UploadSettled (Fulfilled r1)] @ rs2
                     @ [ExtractSettled
                          (Fulfilled \<lparr>status = st, data = JObj [(''ktp_data'', k)]\<rparr>)])
                 (handleUpload url f w))) = k
        \<and> main_view_of (app (run url (rs1 @ [UploadSettled (Fulfilled r1)] @ rs2
                     @ [ExtractSettled
                          (Fulfilled \<lparr>status = st,
                                      data = JObj [(''ktp_data'', js_of_KTPData d)]\<rparr>)])
                 (handleUpload url f w))) = KTPDisplay_view (KTPDisplay_rows (js_of_KTPData d))
        \<and> app (run url (rs1 @ [UploadSettled (Fulfilled r1)] @ rs2
                     @ [ExtractSettled (Fulfilled \<lparr>status = st, data = JNull\<rparr>)])
                 (handleUpload url f w)) =
          (app w)\<lparr>loading := False,
                   error := JStr ''Failed to process KTP image. Please try again.'',
                   imagePreview := None\<rparr>
        \<and> app (run url (rs1 @ [UploadSettled (Fulfilled r1)] @ rs2
                     @ [ExtractSettled (Fulfilled \<lparr>status = st, data = JUndefined\<rparr>)])
                 (handleUpload url f w)) =
          (app w)\<lparr>loading := False,
                   error := JStr ''Failed to process KTP image. Please try again.'',
                   imagePreview := None\<rparr>
        \<and> sent (run url (rs1 @ [UploadSettled (Rejected err)]) (handleUpload url f w)) =
          sent w @ [POST (url @ ''/upload'') \<lparr>entries = [(''file'', f)]\<rparr>]"
    if rs: "list_all is_LoadEnd rs1" "list_all is_LoadEnd rs2"
  proof -
    from upload_fulfilled_run [OF rs, of url r1 f w] obtain p where
      a: "run url (rs1 @ [UploadSettled (Fulfilled r1)] @ rs2) (handleUpload url f w) =
       w\<lparr>app := (app w)\<lparr>loading := True, error := JNull, imagePreview := p\<rparr>,
         awaiting := Some (AwaitExtract \<lparr>entries = [(''file'', f)]\<rparr>),
         sent := sent w @ [POST (url @ ''/upload'') \<lparr>entries = [(''file'', f)]\<rparr>,
                           POST (url @ ''/extract'') \<lparr>entries = [(''file'', f)]\<rparr>]\<rparr>"
      by blast
    have c1: "sent (run url (rs1 @ [UploadSettled (Fulfilled r1)] @ rs2) (handleUpload url f w)) =
          sent w @ [POST (url @ ''/upload'') \<lparr>entries = [(''file'', f)]\<rparr>,
                    POST (url @ ''/extract'') \<lparr>entries = [(''file'', f)]\<rparr>]"
      unfolding a by simp
    note c23 = got [OF rs, of body]
    have c4: "ktpData (app (run url (rs1 @ [UploadSettled (Fulfilled r1)] @ rs2
                     @ [ExtractSettled
                          (Fulfilled \<lparr>status = st, data = JObj [(''ktp_data'', k)]\<rparr>)])
                 (handleUpload url f w))) = k"
      using got [OF rs, of "JObj [(''ktp_data'', k)]"] by simp
    have shown: "main_view_of s = KTPDisplay_view (KTPDisplay_rows (js_of_KTPData d))"
      if "ktpData s = js_of_KTPData d" "loading s = False" for s
      using that typed_rows_drawable [of d]
      by (simp add: main_view_of_def KTPDisplay_def js_of_KTPData_def)
    have c5: "main_view_of (app (run url (rs1 @ [UploadSettled (Fulfilled r1)] @ rs2
                     @ [ExtractSettled
                          (Fulfilled \<lparr>status = st,
                                      data = JObj [(''ktp_data'', js_of_KTPData d)]\<rparr>)])
                 (handleUpload url f w))) = KTPDisplay_view (KTPDisplay_rows (js_of_KTPData d))"
      using got [OF rs, of "JObj [(''ktp_data'', js_of_KTPData d)]"]
      by (intro shown) simp_all
    have nobody: "app (run url (rs1 @ [UploadSettled (Fulfilled r1)] @ rs2
                     @ [ExtractSettled (Fulfilled \<lparr>status = st, data = b\<rparr>)])
                 (handleUpload url f w)) =
          (app w)\<lparr>loading := False,
                   error := JStr ''Failed to process KTP image. Please try again.'',
                   imagePreview := None\<rparr>"
      if n: "nullish b" for b
      unfolding extract_nobody_run [OF rs n, of url r1 st f w]
      by (simp add: caught_message_def)
    have c6: "app (run url (rs1 @ [UploadSettled (Fulfilled r1)] @ rs2
                     @ [ExtractSettled (Fulfilled \<lparr>status = st, data = JNull\<rparr>)])
                 (handleUpload url f w)) =
          (app w)\<lparr>loading := False,
                   error := JStr ''Failed to process KTP image. Please try again.'',
                   imagePreview := None\<rparr>"
      by (rule nobody) simp
    have c6': "app (run url (rs1 @ [UploadSettled (Fulfilled r1)] @ rs2
                     @ [ExtractSettled (Fulfilled \<lparr>status = st, data = JUndefined\<rparr>)])
                 (handleUpload url f w)) =
          (app w)\<lparr>loading := False,
                   error := JStr ''Failed to process KTP image. Please try again.'',
                   imagePreview := None\<rparr>"
      by (rule nobody) simp
    have c7: "sent (run url (rs1 @ [UploadSettled (Rejected err)]) (handleUpload url f w)) =
          sent w @ [POST (url @ ''/upload'') \<lparr>entries = [(''file'', f)]\<rparr>]"
      unfolding upload_rejected_run [OF rs(1), of url err f w] by simp
    from c1 c23 c4 c5 c6 c6' c7 show ?thesis by blast
  qed
  have order: "list_all (\<lambda>q. \<not> is_extract_request url q) (sent (run url evs (handleUpload url f w)))"
    if "list_all (\<lambda>ev. \<not> is_upload_fulfilled ev) evs"
       "list_all (\<lambda>q. \<not> is_extract_request url q) (sent w)"
  proof -
    from that(2) have "extract_not_started url (handleUpload url f w)"
      by (simp add: extract_not_started_def handleUpload_def)
    from run_extract_not_started [OF that(1) this] show ?thesis
      by (simp add: extract_not_started_def)
  qed
  from first paths order show ?thesis by blast
qed

theorem handleUpload_posts_upload_then_extract_witness:
  "list_all is_LoadEnd [LoadEnd (Some ''data:image/jpeg;base64,ZHVtbXk='')]
   \<and> list_all is_LoadEnd []
   \<and> sent (run ''/api''
             ([LoadEnd (Some ''data:image/jpeg;base64,ZHVtbXk='')]
              @ [UploadSettled (Fulfilled \<lparr>status = 200, data = JNull\<rparr>)] @ []
              @ [ExtractSettled
                   (Fulfilled \<lparr>status = 200,
                               data = JObj [(''ktp_data'', js_of_KTPData mockKTPData)]\<rparr>)])
             (handleUpload ''/api''
                \<lparr>name_f = ''ktp.jpg'', type_f = ''image/jpeg'', size_f = 13\<rparr> initial_world)) =
       [POST ''/api/upload''
          \<lparr>entries = [(''file'', \<lparr>name_f = ''ktp.jpg'', type_f = ''image/jpeg'', size_f = 13\<rparr>)]\<rparr>,
        POST ''/api/extract''
          \<lparr>entries = [(''file'', \<lparr>name_f = ''ktp.jpg'', type_f = ''image/jpeg'', size_f = 13\<rparr>)]\<rparr>]
   \<and> ktpData (app (run ''/api''
             ([LoadEnd (Some ''data:image/jpeg;base64,ZHVtbXk='')]
              @ [UploadSettled (Fulfilled \<lparr>status = 200, data = JNull\<rparr>)] @ []
              @ [ExtractSettled
                   (Fulfilled \<lparr>status = 200,
                               data = JObj [(''ktp_data'', js_of_KTPData mockKTPData)]\<rparr>)])
             (handleUpload ''/api''
                \<lparr>name_f = ''ktp.jpg'', type_f = ''image/jpeg'', size_f = 13\<rparr> initial_world)))
       = js_of_KTPData mockKTPData
   \<and> list_all (\<lambda>ev. \<not> is_upload_fulfilled ev) [LoadEnd None, UploadSettled (Rejected OtherThrown)]
   \<and> list_all (\<lambda>q. \<not> is_extract_request ''/api'' q) (sent initial_world)
   \<and> list_all (\<lambda>q. \<not> is_extract_request ''/api'' q)
        (sent (run ''/api'' [LoadEnd None, UploadSettled (Rejected OtherThrown)]
           (handleUpload ''/api''
              \<lparr>name_f = ''ktp.jpg'', type_f = ''image/jpeg'', size_f = 13\<rparr> initial_world)))"
proof -
  note T = handleUpload_posts_upload_then_extract
    [where url = "''/api''"
       and f = "\<lparr>name_f = ''ktp.jpg'', type_f = ''image/jpeg'', size_f = 13\<rparr>"
       and w = initial_world
       and ?rs1.0 = "[LoadEnd (Some ''data:image/jpeg;base64,ZHVtbXk='')]" and ?rs2.0 = "[]"
       and ?r1.0 = "\<lparr>status = 200, data = JNull\<rparr>" and st = 200
       and body = "JObj [(''ktp_data'', js_of_KTPData mockKTPData)]"
       and k = "js_of_KTPData mockKTPData" and d = mockKTPData and err = OtherThrown
       and evs = "[LoadEnd None, UploadSettled (Rejected OtherThrown)]"]
  have h: "list_all is_LoadEnd [LoadEnd (Some ''data:image/jpeg;base64,ZHVtbXk='')]"
    "list_all is_LoadEnd []"
    "list_all (\<lambda>ev. \<not> is_upload_fulfilled ev) [LoadEnd None, UploadSettled (Rejected OtherThrown)]"
    "list_all (\<lambda>q. \<not> is_extract_request ''/api'' q) (sent initial_world)"
    by (simp_all add: initial_world_def)
  from T h show ?thesis by (simp add: initial_world_def)
qed

text \<open>
  C9, as the code has it. When the upload or the extract request is rejected, the state
  after the call is the state before it with \<open>loading\<close> false, \<open>imagePreview\<close> null and
  \<open>error\<close> set; \<open>ktpData\<close> is as it was. The value of \<open>error\<close> is never null: for an
  axios error it is the response body's \<open>error\<close> when that is truthy, else the body's
  \<open>detail.error\<close> when that is truthy, else the axios error's own message; for any
  other thrown value it is the fixed text. Whenever the call is over, on any path,
  \<open>loading\<close> is false. The reader is not part of the call: when it finishes, before
  or after the failure, it sets the preview to its result.
\<close>

theorem handleUpload_failure_state:
  "(list_all is_LoadEnd rs1 \<and> list_all is_LoadEnd rs2 \<longrightarrow>
      app (run url (rs1 @ [UploadSettled (Rejected err)]) (handleUpload url f w)) =
        (app w)\<lparr>loading := False, error := caught_message err, imagePreview := None\<rparr>
      \<and> app (run url (rs1 @ [UploadSettled (Fulfilled r1)] @ rs2 @ [ExtractSettled (Rejected err)])
             (handleUpload url f w)) =
        (app w)\<lparr>loading := False, error := caught_message err, imagePreview := None\<rparr>
      \<and> ktpData (app (run url (rs1 @ [UploadSettled (Rejected err)]) (handleUpload url f w))) =
        ktpData (app w)
      \<and> ktpData (app (run url (rs1 @ [UploadSettled (Fulfilled r1)] @ rs2
                                 @ [ExtractSettled (Rejected err)])
             (handleUpload url f w))) = ktpData (app w))
   \<and> caught_message err \<noteq> JNull
   \<and> caught_message err \<noteq> JUndefined
   \<and> caught_message (IsAxiosError e) =
       (if truthy (get_opt (response_data e) ''error'') then get_opt (response_data e) ''error''
        else if truthy (get_opt (get_opt (response_data e) ''detail'') ''error'')
        then get_opt (get_opt (response_data e) ''detail'') ''error''
        else JStr (message e))
   \<and> caught_message OtherThrown = JStr ''Failed to process KTP image. Please try again.''
   \<and> (awaiting (run url evs (handleUpload url f w)) = None \<longrightarrow>
        loading (app (run url evs (handleUpload url f w))) = False)
   \<and> imagePreview (app (step url (LoadEnd result) w')) = result"
proof -
  have late: "imagePreview (app (step url (LoadEnd result) w')) = result"
    by (simp add: step_def onloadend_def)
  have fail: "app (run url (rs1 @ [UploadSettled (Rejected err)]) (handleUpload url f w)) =
        (app w)\<lparr>loading := False, error := caught_message err, imagePreview := None\<rparr>
      \<and> app (run url (rs1 @ [UploadSettled (Fulfilled r1)] @ rs2 @ [ExtractSettled (Rejected err)])
             (handleUpload url f w)) =
        (app w)\<lparr>loading := False, error := caught_message err, imagePreview := None\<rparr>
      \<and> ktpData (app (run url (rs1 @ [UploadSettled (Rejected err)]) (handleUpload url f w))) =
        ktpData (app w)
      \<and> ktpData (app (run url (rs1 @ [UploadSettled (Fulfilled r1)] @ rs2
                                 @ [ExtractSettled (Rejected err)])
             (handleUpload url f w))) = ktpData (app w)"
    if rs: "list_all is_LoadEnd rs1" "list_all is_LoadEnd rs2"
    unfolding upload_rejected_run [OF rs(1), of url err f w]
      extract_rejected_run [OF rs, of url r1 err f w]
    by simp
  have msg: "caught_message (IsAxiosError e) =
       (if truthy (get_opt (response_data e) ''error'') then get_opt (response_data e) ''error''
        else if truthy (get_opt (get_opt (response_data e) ''detail'') ''error'')
        then get_opt (get_opt (response_data e) ''detail'') ''error''
        else JStr (message e))"
    by (simp add: caught_message_def errorMessage_def js_or_def)
  have other: "caught_message OtherThrown = JStr ''Failed to process KTP image. Please try again.''"
    by (simp add: caught_message_def)
  have finished: "loading (app (run url evs (handleUpload url f w))) = False"
    if "awaiting (run url evs (handleUpload url f w)) = None"
  proof -
    have "idle_not_loading (handleUpload url f w)"
      by (simp add: idle_not_loading_def handleUpload_def)
    from run_idle_not_loading [OF this, of url evs] that show ?thesis
      by (simp add: idle_not_loading_def)
  qed
  from fail msg other finished late caught_message_not_null [of err] show ?thesis by blast
qed

theorem handleUpload_failure_state_witness:
  "list_all is_LoadEnd [LoadEnd (Some ''data:image/jpeg;base64,ZHVtbXk='')]
   \<and> list_all is_LoadEnd []
   \<and> app (run ''/api''
        ([LoadEnd (Some ''data:image/jpeg;base64,ZHVtbXk='')]
         @ [UploadSettled (Rejected (IsAxiosError
              \<lparr>message = ''Request failed with status code 400'',
               response = Some \<lparr>status = 400,
                                data = JObj [(''error'', JStr ''Invalid file'')]\<rparr>\<rparr>))])
        (handleUpload ''/api''
           \<lparr>name_f = ''ktp.jpg'', type_f = ''image/jpeg'', size_f = 13\<rparr> initial_world)) =
       \<lparr>ktpData = JNull, loading = False, error = JStr ''Invalid file'', imagePreview = None\<rparr>
   \<and> awaiting (run ''/api'' [UploadSettled (Rejected OtherThrown)]
        (handleUpload ''/api''
           \<lparr>name_f = ''ktp.jpg'', type_f = ''image/jpeg'', size_f = 13\<rparr> initial_world)) = None
   \<and> loading (app (run ''/api'' [UploadSettled (Rejected OtherThrown)]
        (handleUpload ''/api''
           \<lparr>name_f = ''ktp.jpg'', type_f = ''image/jpeg'', size_f = 13\<rparr> initial_world))) = False"
  using handleUpload_failure_state
    [where ?rs1.0 = "[LoadEnd (Some ''data:image/jpeg;base64,ZHVtbXk='')]" and ?rs2.0 = "[]"
       and url = "''/api''"
       and err = "IsAxiosError
              \<lparr>message = ''Request failed with status code 400'',
               response = Some \<lparr>status = 400,
                                data = JObj [(''error'', JStr ''Invalid file'')]\<rparr>\<rparr>"
       and f = "\<lparr>name_f = ''ktp.jpg'', type_f = ''image/jpeg'', size_f = 13\<rparr>"
       and w = initial_world
       and evs = "[UploadSettled (Rejected OtherThrown)]"]
  by (simp add: initial_world_def initial_App_state_def caught_message_def errorMessage_def
      js_or_def response_data_def run_def step_def upload_settled_def catch_finally_def
      handleUpload_def)

text \<open>
  C9 as worded fails for an axios error that has no response, as when the server cannot
  be reached: \<open>error\<close> is set to the axios error's own message, and there is no
  response whose message it could be.
\<close>

theorem network_error_message_counterexample:
  "error (app (run ''/api''
        [UploadSettled (Rejected (IsAxiosError \<lparr>message = ''Network Error'', response = None\<rparr>))]
        (handleUpload ''/api''
           \<lparr>name_f = ''ktp.jpg'', type_f = ''image/jpeg'', size_f = 13\<rparr> initial_world)))
     = JStr ''Network Error''
   \<and> \<not> error_as_worded (IsAxiosError \<lparr>message = ''Network Error'', response = None\<rparr>)
         (JStr ''Network Error'')"
  by (simp add: error_as_worded_def message_from_response_def carried_by_response_def
      initial_world_def initial_App_state_def caught_message_def errorMessage_def
      js_or_def response_data_def run_def step_def upload_settled_def catch_finally_def
      handleUpload_def)

text \<open>
  C3, as the code has it. After a failed upload or extract request, whatever the reader
  does meanwhile, \<open>error\<close> is the first truthy value among the response body's \<open>error\<close>,
  the body's \<open>detail.error\<close> and the axios error's own message, and the fixed text for a
  thrown value that is not an axios error; the error part of the page is drawn from that
  value. A non-empty string is shown unchanged in the box, and the box shows a text
  only for such a string. A truthy \<open>error\<close> that is not a string comes before
  \<open>detail.error\<close> and the message all the same and is not shown as a message: a number
  other than zero is drawn as the number, \<open>true\<close> gives an empty box, an array its
  drawable items, and for an object rendering throws. When both properties are falsy
  (no response, no such property, an empty string, zero, \<open>false\<close>, \<open>null\<close>) the box shows
  the axios error's message, and there is no box when that message is empty.
\<close>

theorem error_box_shows_first_truthy_value:
  "(list_all is_LoadEnd rs1 \<and> list_all is_LoadEnd rs2 \<longrightarrow>
      error_box (after_failed_upload url rs1 err f w) = error_view_of (caught_message err)
      \<and> error_box (after_failed_extract url rs1 r1 rs2 err f w) = error_view_of (caught_message err))
   \<and> caught_message (IsAxiosError e) =
       (if truthy (get_opt (response_data e) ''error'') then get_opt (response_data e) ''error''
        else if truthy (get_opt (get_opt (response_data e) ''detail'') ''error'')
        then get_opt (get_opt (response_data e) ''detail'') ''error''
        else JStr (message e))
   \<and> caught_message OtherThrown = JStr ''Failed to process KTP image. Please try again.''
   \<and> error_view_of (JStr s) = (if s = [] then No_box (Text []) else Box (Text s))
   \<and> error_view_of (JNum n) = (if n = 0 then No_box (Number 0) else Box (Number n))
   \<and> error_view_of (JBool b) = (if b then Box Nothing_drawn else No_box Nothing_drawn)
   \<and> error_view_of JNull = No_box Nothing_drawn
   \<and> error_view_of JUndefined = No_box Nothing_drawn
   \<and> error_view_of (JObj kvs) = Box_throws
   \<and> error_view_of (JArr vs) =
       (case those (map draw_child vs) of None \<Rightarrow> Box_throws | Some ds \<Rightarrow> Box (Several ds))
   \<and> (error_view_of v = Box (Text m')) = (v = JStr m' \<and> m' \<noteq> [])
   \<and> (list_all is_LoadEnd rs1 \<and> list_all is_LoadEnd rs2
      \<and> get_opt (response_data e) ''error'' = JStr m \<and> m \<noteq> [] \<longrightarrow>
      error_box (after_failed_upload url rs1 (IsAxiosError e) f w) = Box (Text m)
      \<and> error_box (after_failed_extract url rs1 r1 rs2 (IsAxiosError e) f w) = Box (Text m))
   \<and> (list_all is_LoadEnd rs1 \<and> list_all is_LoadEnd rs2
      \<and> \<not> truthy (get_opt (response_data e) ''error'')
      \<and> get_opt (get_opt (response_data e) ''detail'') ''error'' = JStr m \<and> m \<noteq> [] \<longrightarrow>
      error_box (after_failed_upload url rs1 (IsAxiosError e) f w) = Box (Text m)
      \<and> error_box (after_failed_extract url rs1 r1 rs2 (IsAxiosError e) f w) = Box (Text m))
   \<and> (list_all is_LoadEnd rs1 \<and> list_all is_LoadEnd rs2
      \<and> \<not> truthy (get_opt (response_data e) ''error'')
      \<and> \<not> truthy (get_opt (get_opt (response_data e) ''detail'') ''error'') \<longrightarrow>
      error_box (after_failed_upload url rs1 (IsAxiosError e) f w) =
        (if message e = [] then No_box (Text []) else Box (Text (message e)))
      \<and> error_box (after_failed_extract url rs1 r1 rs2 (IsAxiosError e) f w) =
        (if message e = [] then No_box (Text []) else Box (Text (message e))))
   \<and> (list_all is_LoadEnd rs1 \<and> list_all is_LoadEnd rs2 \<longrightarrow>
      error_box (after_failed_upload url rs1 OtherThrown f w) =
        Box (Text ''Failed to process KTP image. Please try again.'')
      \<and> error_box (after_failed_extract url rs1 r1 rs2 OtherThrown f w) =
        Box (Text ''Failed to process KTP image. Please try again.''))
   \<and> (list_all is_LoadEnd rs1 \<and> list_all is_LoadEnd rs2
      \<and> truthy (get_opt (response_data e) ''error'') \<longrightarrow>
      error_box (after_failed_upload url rs1 (IsAxiosError e) f w) =
        error_view_of (get_opt (response_data e) ''error'')
      \<and> error_box (after_failed_extract url rs1 r1 rs2 (IsAxiosError e) f w) =
        error_view_of (get_opt (response_data e) ''error''))
   \<and> (list_all is_LoadEnd rs1 \<and> list_all is_LoadEnd rs2
      \<and> \<not> truthy (get_opt (response_data e) ''error'')
      \<and> truthy (get_opt (get_opt (response_data e) ''detail'') ''error'') \<longrightarrow>
      error_box (after_failed_upload url rs1 (IsAxiosError e) f w) =
        error_view_of (get_opt (get_opt (response_data e) ''detail'') ''error'')
      \<and> error_box (after_failed_extract url rs1 r1 rs2 (IsAxiosError e) f w) =
        error_view_of (get_opt (get_opt (response_data e) ''detail'') ''error''))"
proof -
  have box: "error_box (after_failed_upload url rs1 err f w) = error_view_of (caught_message err)
             \<and> error_box (after_failed_extract url rs1 r1 rs2 err f w) =
               error_view_of (caught_message err)"
    if rs: "list_all is_LoadEnd rs1" "list_all is_LoadEnd rs2" for err
    unfolding after_failed_upload_def after_failed_extract_def
      upload_rejected_run [OF rs(1), of url err f w]
      extract_rejected_run [OF rs, of url r1 err f w]
    by (simp add: error_box_def)
  have msg: "caught_message (IsAxiosError e) =
       (if truthy (get_opt (response_data e) ''error'') then get_opt (response_data e) ''error''
        else if truthy (get_opt (get_opt (response_data e) ''detail'') ''error'')
        then get_opt (get_opt (response_data e) ''detail'') ''error''
        else JStr (message e))"
    by (simp add: caught_message_def errorMessage_def js_or_def)
  have other: "caught_message OtherThrown = JStr ''Failed to process KTP image. Please try again.''"
    by (simp add: caught_message_def)
  have v1: "error_view_of (JStr s) = (if s = [] then No_box (Text []) else Box (Text s))" for s
    by (simp add: error_view_of_def)
  have v2: "error_view_of (JNum n) = (if n = 0 then No_box (Number 0) else Box (Number n))"
    by (simp add: error_view_of_def)
  have v3: "error_view_of (JBool b) = (if b then Box Nothing_drawn else No_box Nothing_drawn)"
    by (simp add: error_view_of_def)
  have v4: "error_view_of JNull = No_box Nothing_drawn"
    "error_view_of JUndefined = No_box Nothing_drawn"
    "error_view_of (JObj kvs) = Box_throws"
    by (simp_all add: error_view_of_def)
  have v5: "error_view_of (JArr vs) =
       (case those (map draw_child vs) of None \<Rightarrow> Box_throws | Some ds \<Rightarrow> Box (Several ds))"
    by (simp add: error_view_of_def split: option.splits)
  have v6: "(error_view_of v = Box (Text m')) = (v = JStr m' \<and> m' \<noteq> [])"
    by (cases v) (auto simp: error_view_of_def split: option.splits)
  have c1: "error_box (after_failed_upload url rs1 (IsAxiosError e) f w) = Box (Text m)
      \<and> error_box (after_failed_extract url rs1 r1 rs2 (IsAxiosError e) f w) = Box (Text m)"
    if "list_all is_LoadEnd rs1" "list_all is_LoadEnd rs2"
       "get_opt (response_data e) ''error'' = JStr m" "m \<noteq> []"
    using box [OF that(1,2), of "IsAxiosError e"] that(3,4) by (simp add: msg v1)
  have c2: "error_box (after_failed_upload url rs1 (IsAxiosError e) f w) = Box (Text m)
      \<and> error_box (after_failed_extract url rs1 r1 rs2 (IsAxiosError e) f w) = Box (Text m)"
    if "list_all is_LoadEnd rs1" "list_all is_LoadEnd rs2"
       "\<not> truthy (get_opt (response_data e) ''error'')"
       "get_opt (get_opt (response_data e) ''detail'') ''error'' = JStr m" "m \<noteq> []"
    using box [OF that(1,2), of "IsAxiosError e"] that(3,4,5) by (simp add: msg v1)
  have c3: "error_box (after_failed_upload url rs1 (IsAxiosError e) f w) =
        (if message e = [] then No_box (Text []) else Box (Text (message e)))
      \<and> error_box (after_failed_extract url rs1 r1 rs2 (IsAxiosError e) f w) =
        (if message e = [] then No_box (Text []) else Box (Text (message e)))"
    if "list_all is_LoadEnd rs1" "list_all is_LoadEnd rs2"
       "\<not> truthy (get_opt (response_data e) ''error'')"
       "\<not> truthy (get_opt (get_opt (response_data e) ''detail'') ''error'')"
    using box [OF that(1,2), of "IsAxiosError e"] that(3,4) by (simp add: msg v1)
  have c4: "error_box (after_failed_upload url rs1 OtherThrown f w) =
        Box (Text ''Failed to process KTP image. Please try again.'')
      \<and> error_box (after_failed_extract url rs1 r1 rs2 OtherThrown f w) =
        Box (Text ''Failed to process KTP image. Please try again.'')"
    if "list_all is_LoadEnd rs1" "list_all is_LoadEnd rs2"
    using box [OF that, of OtherThrown] by (simp add: other v1)
  have c5: "error_box (after_failed_upload url rs1 (IsAxiosError e) f w) =
        error_view_of (get_opt (response_data e) ''error'')
      \<and> error_box (after_failed_extract url rs1 r1 rs2 (IsAxiosError e) f w) =
        error_view_of (get_opt (response_data e) ''error'')"
    if "list_all is_LoadEnd rs1" "list_all is_LoadEnd rs2"
       "truthy (get_opt (response_data e) ''error'')"
    using box [OF that(1,2), of "IsAxiosError e"] that(3) by (simp add: msg)
  have c6: "error_box (after_failed_upload url rs1 (IsAxiosError e) f w) =
        error_view_of (get_opt (get_opt (response_data e) ''detail'') ''error'')
      \<and> error_box (after_failed_extract url rs1 r1 rs2 (IsAxiosError e) f w) =
        error_view_of (get_opt (get_opt (response_data e) ''detail'') ''error'')"
    if "list_all is_LoadEnd rs1" "list_all is_LoadEnd rs2"
       "\<not> truthy (get_opt (response_data e) ''error'')"
       "truthy (get_opt (get_opt (response_data e) ''detail'') ''error'')"
    using box [OF that(1,2), of "IsAxiosError e"] that(3,4) by (simp add: msg)
  have a: "list_all is_LoadEnd rs1 \<and> list_all is_LoadEnd rs2 \<longrightarrow>
      error_box (after_failed_upload url rs1 err f w) = error_view_of (caught_message err)
      \<and> error_box (after_failed_extract url rs1 r1 rs2 err f w) = error_view_of (caught_message err)"
    using box by blast
  from c1 have c1': "list_all is_LoadEnd rs1 \<and> list_all is_LoadEnd rs2
      \<and> get_opt (response_data e) ''error'' = JStr m \<and> m \<noteq> [] \<longrightarrow>
      error_box (after_failed_upload url rs1 (IsAxiosError e) f w) = Box (Text m)
      \<and> error_box (after_failed_extract url rs1 r1 rs2 (IsAxiosError e) f w) = Box (Text m)"
    by blast
  from c2 have c2': "list_all is_LoadEnd rs1 \<and> list_all is_LoadEnd rs2
      \<and> \<not> truthy (get_opt (response_data e) ''error'')
      \<and> get_opt (get_opt (response_data e) ''detail'') ''error'' = JStr m \<and> m \<noteq> [] \<longrightarrow>
      error_box (after_failed_upload url rs1 (IsAxiosError e) f w) = Box (Text m)
      \<and> error_box (after_failed_extract url rs1 r1 rs2 (IsAxiosError e) f w) = Box (Text m)"
    by blast
  from c3 have c3': "list_all is_LoadEnd rs1 \<and> list_all is_LoadEnd rs2
      \<and> \<not> truthy (get_opt (response_data e) ''error'')
      \<and> \<not> truthy (get_opt (get_opt (response_data e) ''detail'') ''error'') \<longrightarrow>
      error_box (after_failed_upload url rs1 (IsAxiosError e) f w) =
        (if message e = [] then No_box (Text []) else Box (Text (message e)))
      \<and> error_box (after_failed_extract url rs1 r1 rs2 (IsAxiosError e) f w) =
        (if message e = [] then No_box (Text []) else Box (Text (message e)))"
    by blast
  from c4 have c4': "list_all is_LoadEnd rs1 \<and> list_all is_LoadEnd rs2 \<longrightarrow>
      error_box (after_failed_upload url rs1 OtherThrown f w) =
        Box (Text ''Failed to process KTP image. Please try again.'')
      \<and> error_box (after_failed_extract url rs1 r1 rs2 OtherThrown f w) =
        Box (Text ''Failed to process KTP image. Please try again.'')"
    by blast
  from c5 have c5': "list_all is_LoadEnd rs1 \<and> list_all is_LoadEnd rs2
      \<and> truthy (get_opt (response_data e) ''error'') \<longrightarrow>
      error_box (after_failed_upload url rs1 (IsAxiosError e) f w) =
        error_view_of (get_opt (response_data e) ''error'')
      \<and> error_box (after_failed_extract url rs1 r1 rs2 (IsAxiosError e) f w) =
        error_view_of (get_opt (response_data e) ''error'')"
    by blast
  from c6 have c6': "list_all is_LoadEnd rs1 \<and> list_all is_LoadEnd rs2
      \<and> \<not> truthy (get_opt (response_data e) ''error'')
      \<and> truthy (get_opt (get_opt (response_data e) ''detail'') ''error'') \<longrightarrow>
      error_box (after_failed_upload url rs1 (IsAxiosError e) f w) =
        error_view_of (get_opt (get_opt (response_data e) ''detail'') ''error'')
      \<and> error_box (after_failed_extract url rs1 r1 rs2 (IsAxiosError e) f w) =
        error_view_of (get_opt (get_opt (response_data e) ''detail'') ''error'')"
    by blast
  show ?thesis
    by (intro conjI) (rule a msg other v1 v2 v3 v4 v5 v6 c1' c2' c3' c4' c5' c6')+
qed

theorem error_box_shows_first_truthy_value_witness:
  "list_all is_LoadEnd [LoadEnd (Some ''data:image/jpeg;base64,ZHVtbXk='')]
   \<and> list_all is_LoadEnd [LoadEnd None]
   \<and> get_opt (response_data
          \<lparr>message = ''Request failed with status code 400'',
           response = Some \<lparr>status = 400, data = JObj [(''error'', JStr ''Invalid file'')]\<rparr>\<rparr>)
        ''error'' = JStr ''Invalid file''
   \<and> error_box (after_failed_upload ''/api''
        [LoadEnd (Some ''data:image/jpeg;base64,ZHVtbXk='')]
        (IsAxiosError
          \<lparr>message = ''Request failed with status code 400'',
           response = Some \<lparr>status = 400, data = JObj [(''error'', JStr ''Invalid file'')]\<rparr>\<rparr>)
        \<lparr>name_f = ''ktp.jpg'', type_f = ''image/jpeg'', size_f = 13\<rparr> initial_world)
       = Box (Text ''Invalid file'')
   \<and> error_box (after_failed_extract ''/api''
        [LoadEnd (Some ''data:image/jpeg;base64,ZHVtbXk='')]
        \<lparr>status = 200, data = JNull\<rparr> [LoadEnd None]
        (IsAxiosError
          \<lparr>message = ''Request failed with status code 400'',
           response = Some \<lparr>status = 400, data = JObj [(''error'', JStr ''Invalid file'')]\<rparr>\<rparr>)
        \<lparr>name_f = ''ktp.jpg'', type_f = ''image/jpeg'', size_f = 13\<rparr> initial_world)
       = Box (Text ''Invalid file'')
   \<and> truthy (get_opt (response_data
          \<lparr>message = ''Request failed with status code 400'',
           response = Some \<lparr>status = 400,
             data = JObj [(''error'', JNum 5),
                          (''detail'', JObj [(''error'', JStr ''Invalid file'')])]\<rparr>\<rparr>)
        ''error'')
   \<and> error_box (after_failed_upload ''/api''
        [LoadEnd (Some ''data:image/jpeg;base64,ZHVtbXk='')]
        (IsAxiosError
          \<lparr>message = ''Request failed with status code 400'',
           response = Some \<lparr>status = 400,
             data = JObj [(''error'', JNum 5),
                          (''detail'', JObj [(''error'', JStr ''Invalid file'')])]\<rparr>\<rparr>)
        \<lparr>name_f = ''ktp.jpg'', type_f = ''image/jpeg'', size_f = 13\<rparr> initial_world)
       = Box (Number 5)
   \<and> error_box (after_failed_extract ''/api''
        [LoadEnd (Some ''data:image/jpeg;base64,ZHVtbXk='')]
        \<lparr>status = 200, data = JNull\<rparr> [LoadEnd None]
        (IsAxiosError
          \<lparr>message = ''Request failed with status code 400'',
           response = Some \<lparr>status = 400,
             data = JObj [(''error'', JNum 5),
                          (''detail'', JObj [(''error'', JStr ''Invalid file'')])]\<rparr>\<rparr>)
        \<lparr>name_f = ''ktp.jpg'', type_f = ''image/jpeg'', size_f = 13\<rparr> initial_world)
       = Box (Number 5)"
proof -
  note T1 = error_box_shows_first_truthy_value
    [where ?rs1.0 = "[LoadEnd (Some ''data:image/jpeg;base64,ZHVtbXk='')]"
       and ?rs2.0 = "[LoadEnd None]"
       and e = "\<lparr>message = ''Request failed with status code 400'',
           response = Some \<lparr>status = 400, data = JObj [(''error'', JStr ''Invalid file'')]\<rparr>\<rparr>"
       and m = "''Invalid file''" and url = "''/api''"
       and f = "\<lparr>name_f = ''ktp.jpg'', type_f = ''image/jpeg'', size_f = 13\<rparr>"
       and w = initial_world and ?r1.0 = "\<lparr>status = 200, data = JNull\<rparr>"]
  note T2 = error_box_shows_first_truthy_value
    [where ?rs1.0 = "[LoadEnd (Some ''data:image/jpeg;base64,ZHVtbXk='')]"
       and ?rs2.0 = "[LoadEnd None]"
       and e = "\<lparr>message = ''Request failed with status code 400'',
           response = Some \<lparr>status = 400,
             data = JObj [(''error'', JNum 5),
                          (''detail'', JObj [(''error'', JStr ''Invalid file'')])]\<rparr>\<rparr>"
       and m = "''Invalid file''" and url = "''/api''"
       and f = "\<lparr>name_f = ''ktp.jpg'', type_f = ''image/jpeg'', size_f = 13\<rparr>"
       and w = initial_world and ?r1.0 = "\<lparr>status = 200, data = JNull\<rparr>"]
  have h: "list_all is_LoadEnd [LoadEnd (Some ''data:image/jpeg;base64,ZHVtbXk='')]"
    "list_all is_LoadEnd [LoadEnd None]"
    by simp_all
  have e1: "get_opt (response_data
          \<lparr>message = ''Request failed with status code 400'',
           response = Some \<lparr>status = 400, data = JObj [(''error'', JStr ''Invalid file'')]\<rparr>\<rparr>)
        ''error'' = JStr ''Invalid file''"
    by (simp add: response_data_def)
  have e2: "get_opt (response_data
          \<lparr>message = ''Request failed with status code 400'',
           response = Some \<lparr>status = 400,
             data = JObj [(''error'', JNum 5),
                          (''detail'', JObj [(''error'', JStr ''Invalid file'')])]\<rparr>\<rparr>)
        ''error'' = JNum 5"
    by (simp add: response_data_def)
  have t2: "truthy (get_opt (response_data
          \<lparr>message = ''Request failed with status code 400'',
           response = Some \<lparr>status = 400,
             data = JObj [(''error'', JNum 5),
                          (''detail'', JObj [(''error'', JStr ''Invalid file'')])]\<rparr>\<rparr>)
        ''error'')"
    unfolding e2 by simp
  from T1 h e1 have s1: "error_box (after_failed_upload ''/api''
        [LoadEnd (Some ''data:image/jpeg;base64,ZHVtbXk='')]
        (IsAxiosError
          \<lparr>message = ''Request failed with status code 400'',
           response = Some \<lparr>status = 400, data = JObj [(''error'', JStr ''Invalid file'')]\<rparr>\<rparr>)
        \<lparr>name_f = ''ktp.jpg'', type_f = ''image/jpeg'', size_f = 13\<rparr> initial_world)
       = Box (Text ''Invalid file'')
   \<and> error_box (after_failed_extract ''/api''
        [LoadEnd (Some ''data:image/jpeg;base64,ZHVtbXk='')]
        \<lparr>status = 200, data = JNull\<rparr> [LoadEnd None]
        (IsAxiosError
          \<lparr>message = ''Request failed with status code 400'',
           response = Some \<lparr>status = 400, data = JObj [(''error'', JStr ''Invalid file'')]\<rparr>\<rparr>)
        \<lparr>name_f = ''ktp.jpg'', type_f = ''image/jpeg'', size_f = 13\<rparr> initial_world)
       = Box (Text ''Invalid file'')"
    by simp
  from T2 h t2 have "error_box (after_failed_upload ''/api''
        [LoadEnd (Some ''data:image/jpeg;base64,ZHVtbXk='')]
        (IsAxiosError
          \<lparr>message = ''Request failed with status code 400'',
           response = Some \<lparr>status = 400,
             data = JObj [(''error'', JNum 5),
                          (''detail'', JObj [(''error'', JStr ''Invalid file'')])]\<rparr>\<rparr>)
        \<lparr>name_f = ''ktp.jpg'', type_f = ''image/jpeg'', size_f = 13\<rparr> initial_world)
       = error_view_of (get_opt (response_data
          \<lparr>message = ''Request failed with status code 400'',
           response = Some \<lparr>status = 400,
             data = JObj [(''error'', JNum 5),
                          (''detail'', JObj [(''error'', JStr ''Invalid file'')])]\<rparr>\<rparr>)
        ''error'')
   \<and> error_box (after_failed_extract ''/api''
        [LoadEnd (Some ''data:image/jpeg;base64,ZHVtbXk='')]
        \<lparr>status = 200, data = JNull\<rparr> [LoadEnd None]
        (IsAxiosError
          \<lparr>message = ''Request failed with status code 400'',
           response = Some \<lparr>status = 400,
             data = JObj [(''error'', JNum 5),
                          (''detail'', JObj [(''error'', JStr ''Invalid file'')])]\<rparr>\<rparr>)
        \<lparr>name_f = ''ktp.jpg'', type_f = ''image/jpeg'', size_f = 13\<rparr> initial_world)
       = error_view_of (get_opt (response_data
          \<lparr>message = ''Request failed with status code 400'',
           response = Some \<lparr>status = 400,
             data = JObj [(''error'', JNum 5),
                          (''detail'', JObj [(''error'', JStr ''Invalid file'')])]\<rparr>\<rparr>)
        ''error'')"
    by blast
  then have s2: "error_box (after_failed_upload ''/api''
        [LoadEnd (Some ''data:image/jpeg;base64,ZHVtbXk='')]
        (IsAxiosError
          \<lparr>message = ''Request failed with status code 400'',
           response = Some \<lparr>status = 400,
             data = JObj [(''error'', JNum 5),
                          (''detail'', JObj [(''error'', JStr ''Invalid file'')])]\<rparr>\<rparr>)
        \<lparr>name_f = ''ktp.jpg'', type_f = ''image/jpeg'', size_f = 13\<rparr> initial_world)
       = Box (Number 5)
   \<and> error_box (after_failed_extract ''/api''
        [LoadEnd (Some ''data:image/jpeg;base64,ZHVtbXk='')]
        \<lparr>status = 200, data = JNull\<rparr> [LoadEnd None]
        (IsAxiosError
          \<lparr>message = ''Request failed with status code 400'',
           response = Some \<lparr>status = 400,
             data = JObj [(''error'', JNum 5),
                          (''detail'', JObj [(''error'', JStr ''Invalid file'')])]\<rparr>\<rparr>)
        \<lparr>name_f = ''ktp.jpg'', type_f = ''image/jpeg'', size_f = 13\<rparr> initial_world)
       = Box (Number 5)"
    unfolding e2 by (simp add: error_view_of_def)
  from h e1 t2 s1 s2 show ?thesis by (intro conjI) blast+
qed

text \<open>
  C3 as worded fails for a response whose message is not under \<open>error\<close> or
  \<open>detail.error\<close>: for status 413 with the body \<open>{"detail": "File too large"}\<close> the
  box shows the text axios made for the status code, which the response does not carry.
\<close>

theorem detail_string_response_counterexample:
  "error_box (after_failed_upload ''/api'' []
        (IsAxiosError
          \<lparr>message = ''Request failed with status code 413'',
           response = Some \<lparr>status = 413, data = JObj [(''detail'', JStr ''File too large'')]\<rparr>\<rparr>)
        \<lparr>name_f = ''ktp.jpg'', type_f = ''image/jpeg'', size_f = 13\<rparr> initial_world)
     = Box (Text ''Request failed with status code 413'')
   \<and> carried_by_response
          \<lparr>message = ''Request failed with status code 413'',
           response = Some \<lparr>status = 413, data = JObj [(''detail'', JStr ''File too large'')]\<rparr>\<rparr>
     = [JObj [(''detail'', JStr ''File too large'')], JStr ''File too large'']
   \<and> \<not> shows_response_message
          \<lparr>message = ''Request failed with status code 413'',
           response = Some \<lparr>status = 413, data = JObj [(''detail'', JStr ''File too large'')]\<rparr>\<rparr>
        (after_failed_upload ''/api'' []
          (IsAxiosError
            \<lparr>message = ''Request failed with status code 413'',
           response = Some \<lparr>status = 413, data = JObj [(''detail'', JStr ''File too large'')]\<rparr>\<rparr>)
          \<lparr>name_f = ''ktp.jpg'', type_f = ''image/jpeg'', size_f = 13\<rparr> initial_world)"
proof -
  have r: "list_all is_LoadEnd []" by simp
  have m: "caught_message (IsAxiosError
          \<lparr>message = ''Request failed with status code 413'',
           response = Some \<lparr>status = 413, data = JObj [(''detail'', JStr ''File too large'')]\<rparr>\<rparr>) = JStr ''Request failed with status code 413''"
    by (simp add: caught_message_def errorMessage_def js_or_def response_data_def)
  have b: "error_box (after_failed_upload ''/api'' []
        (IsAxiosError
          \<lparr>message = ''Request failed with status code 413'',
           response = Some \<lparr>status = 413, data = JObj [(''detail'', JStr ''File too large'')]\<rparr>\<rparr>)
        \<lparr>name_f = ''ktp.jpg'', type_f = ''image/jpeg'', size_f = 13\<rparr> initial_world)
     = Box (Text ''Request failed with status code 413'')"
    unfolding after_failed_upload_def upload_rejected_run [OF r] m
    by (simp add: error_box_def error_view_of_def)
  have c: "carried_by_response
          \<lparr>message = ''Request failed with status code 413'',
           response = Some \<lparr>status = 413, data = JObj [(''detail'', JStr ''File too large'')]\<rparr>\<rparr>
     = [JObj [(''detail'', JStr ''File too large'')], JStr ''File too large'']"
    by (simp add: carried_by_response_def)
  have n: "\<not> shows_response_message
          \<lparr>message = ''Request failed with status code 413'',
           response = Some \<lparr>status = 413, data = JObj [(''detail'', JStr ''File too large'')]\<rparr>\<rparr>
        (after_failed_upload ''/api'' []
          (IsAxiosError
            \<lparr>message = ''Request failed with status code 413'',
           response = Some \<lparr>status = 413, data = JObj [(''detail'', JStr ''File too large'')]\<rparr>\<rparr>)
          \<lparr>name_f = ''ktp.jpg'', type_f = ''image/jpeg'', size_f = 13\<rparr> initial_world)"
    unfolding shows_response_message_def b message_from_response_def c by simp
  from b c n show ?thesis by (intro conjI)
qed

section \<open>Properties of the record on display\<close>

lemma map_filter_member:
  "x \<in> set xs \<Longrightarrow> g x = Some y \<Longrightarrow> y \<in> set (List.map_filter g xs)"
  by (force simp: List.map_filter_def)

lemma birth_date_row:
  assumes "get_opt obj ''birth_date'' = JStr s" "s \<noteq> []"
  shows "\<lparr>key_r = ''birth_date'', label_r = ''Tanggal Lahir'', value_r = JStr s,
          background = ''bg-white''\<rparr> \<in> set (KTPDisplay_rows obj)"
proof -
  have "(3, ''birth_date'', ''Tanggal Lahir'') \<in> set (enumerate 0 fieldLabels)"
    by (simp add: in_set_enumerate_eq fieldLabels_def)
  moreover have "render_field obj (3, ''birth_date'', ''Tanggal Lahir'') =
      Some \<lparr>key_r = ''birth_date'', label_r = ''Tanggal Lahir'', value_r = JStr s,
          background = ''bg-white''\<rparr>"
    using assms by (simp add: render_field_def)
  ultimately show ?thesis
    unfolding KTPDisplay_rows_def by (rule map_filter_member)
qed

lemma validated_record:
  "field_validation (js_of_KTPData (mockKTPData\<lparr>birth_date := ''25-04-1990''\<rparr>))"
  by (simp add: field_validation_def nik_checked_def birth_date_checked_def gender_checked_def
      properties_of_KTPData nik_pattern_def full_match_digits birth_date_pattern_def
      is_digit_def mockKTPData_def)

lemma run_to_display:
  "ktpData (app (run url [Upload f, UploadSettled (Fulfilled ack),
        ExtractSettled (Fulfilled \<lparr>status = st, data = JObj [(''ktp_data'', r)]\<rparr>)]
      initial_world)) = r"
  by (simp add: initial_world_def initial_App_state_def get_prop_def
      run_def step_def handleUpload_def upload_settled_def extract_settled_def)

lemma api_extract_Fulfilled:
  "api_extract failure r = Fulfilled resp \<Longrightarrow>
     resp = \<lparr>status = 200, data = JObj [(''ktp_data'', r)]\<rparr> \<and> field_validation r"
  by (auto simp: api_extract_def split: if_splits)

lemma run_from_initial:
  assumes "list_all (served_checked P) evs" "truthy (ktpData (app (run url evs initial_world)))"
  shows "P (ktpData (app (run url evs initial_world)))"
proof -
  have "displayed_record P initial_world"
    by (simp add: displayed_record_def initial_world_def initial_App_state_def)
  from run_displayed_record [OF assms(1) this, of url] assms(2)
  show ?thesis by (simp add: displayed_record_def)
qed

lemma api_extract_checked:
  "served_checked nik_checked (ExtractSettled (api_extract failure r))"
  "served_checked birth_date_checked (ExtractSettled (api_extract failure r))"
  "served_checked gender_checked (ExtractSettled (api_extract failure r))"
  using api_extract_served [of failure r]
  by (auto intro: served_checked_mono [of field_validation] simp: field_validation_def)

lemma nik_checked_iff:
  "nik_checked r = (\<exists>s. get_opt r ''nik'' = JStr s \<and> length s = 16 \<and> list_all is_digit s)"
  by (cases "get_opt r ''nik''") (simp_all add: nik_checked_def nik_pattern_def full_match_digits)

lemma birth_date_checked_iff:
  "birth_date_checked r =
     (\<exists>s. get_opt r ''birth_date'' = JStr s \<and> full_match birth_date_pattern s)"
  by (cases "get_opt r ''birth_date''") (simp_all add: birth_date_checked_def)

lemma run_of_validated_record:
  "api_extract \<lparr>message = ''Request failed with status code 422'', response = None\<rparr>
       (js_of_KTPData (mockKTPData\<lparr>birth_date := ''25-04-1990''\<rparr>)) =
     Fulfilled \<lparr>status = 200,
                 data = JObj [(''ktp_data'',
                   js_of_KTPData (mockKTPData\<lparr>birth_date := ''25-04-1990''\<rparr>))]\<rparr>"
  "ktpData (app (run url
       [Upload f, UploadSettled (Fulfilled ack),
        ExtractSettled
          (api_extract \<lparr>message = ''Request failed with status code 422'', response = None\<rparr>
             (js_of_KTPData (mockKTPData\<lparr>birth_date := ''25-04-1990''\<rparr>)))]
       initial_world)) = js_of_KTPData (mockKTPData\<lparr>birth_date := ''25-04-1990''\<rparr>)"
  "truthy (js_of_KTPData (mockKTPData\<lparr>birth_date := ''25-04-1990''\<rparr>))"
  "list_all (served_checked P)
       [Upload f, UploadSettled (Fulfilled ack),
        ExtractSettled
          (api_extract \<lparr>message = ''Request failed with status code 422'', response = None\<rparr>
             (js_of_KTPData (mockKTPData\<lparr>birth_date := ''25-04-1990''\<rparr>)))]
     = P (js_of_KTPData (mockKTPData\<lparr>birth_date := ''25-04-1990''\<rparr>))"
  "displayed_record P initial_world"
proof -
  show ex: "api_extract \<lparr>message = ''Request failed with status code 422'', response = None\<rparr>
       (js_of_KTPData (mockKTPData\<lparr>birth_date := ''25-04-1990''\<rparr>)) =
     Fulfilled \<lparr>status = 200,
                 data = JObj [(''ktp_data'',
                   js_of_KTPData (mockKTPData\<lparr>birth_date := ''25-04-1990''\<rparr>))]\<rparr>"
    by (simp only: api_extract_def validated_record if_True)
  show "ktpData (app (run url
       [Upload f, UploadSettled (Fulfilled ack),
        ExtractSettled
          (api_extract \<lparr>message = ''Request failed with status code 422'', response = None\<rparr>
             (js_of_KTPData (mockKTPData\<lparr>birth_date := ''25-04-1990''\<rparr>)))]
       initial_world)) = js_of_KTPData (mockKTPData\<lparr>birth_date := ''25-04-1990''\<rparr>)"
    unfolding ex by (rule run_to_display)
  show t: "truthy (js_of_KTPData (mockKTPData\<lparr>birth_date := ''25-04-1990''\<rparr>))"
    by (simp add: js_of_KTPData_def)
  show "list_all (served_checked P)
       [Upload f, UploadSettled (Fulfilled ack),
        ExtractSettled
          (api_extract \<lparr>message = ''Request failed with status code 422'', response = None\<rparr>
             (js_of_KTPData (mockKTPData\<lparr>birth_date := ''25-04-1990''\<rparr>)))]
     = P (js_of_KTPData (mockKTPData\<lparr>birth_date := ''25-04-1990''\<rparr>))"
    unfolding ex using t by simp
  show "displayed_record P initial_world"
    by (simp add: displayed_record_def initial_world_def initial_App_state_def)
qed

text \<open>
  C4, against the field validation modelled from the specification. A record that the
  extract endpoint returns has passed the NIK check, and \<open>handleUpload\<close> puts the
  \<open>ktp_data\<close> of a fulfilled extract response on display as it is, unchecked. So in every
  sequence of events whose extract responses passed that check, the record on display,
  if there is one, has a \<open>nik\<close> that is a string of exactly 16 characters, all of them
  digits, which is what matching \<open>^\d{16}$\<close> comes to. Failures, resets and the reader
  leave the record alone or clear it.
\<close>

theorem displayed_nik_has_16_digits:
  "(list_all (served_checked nik_checked) evs \<and> displayed_record nik_checked w \<longrightarrow>
      displayed_record nik_checked (run url evs w))
   \<and> (list_all (served_checked nik_checked) evs \<and> truthy (ktpData (app (run url evs initial_world))) \<longrightarrow>
      (\<exists>s. get_opt (ktpData (app (run url evs initial_world))) ''nik'' = JStr s \<and> length s = 16 \<and> list_all is_digit s
          \<and> full_match nik_pattern s))
   \<and> served_checked nik_checked (ExtractSettled (api_extract failure r))
   \<and> (api_extract failure r = Fulfilled resp \<longrightarrow>
      resp = \<lparr>status = 200, data = JObj [(''ktp_data'', r)]\<rparr>
      \<and> (\<exists>s. get_opt r ''nik'' = JStr s \<and> length s = 16 \<and> list_all is_digit s
          \<and> full_match nik_pattern s))
   \<and> nik_checked r' =
       (\<exists>s. get_opt r' ''nik'' = JStr s \<and> length s = 16 \<and> list_all is_digit s)
   \<and> full_match nik_pattern s' = (length s' = 16 \<and> list_all is_digit s')"
proof -
  have pat: "full_match nik_pattern s = (length s = 16 \<and> list_all is_digit s)" for s
    by (simp add: nik_pattern_def full_match_digits)
  have chk: "(\<exists>s. get_opt v ''nik'' = JStr s \<and> length s = 16 \<and> list_all is_digit s
          \<and> full_match nik_pattern s)" if "nik_checked v" for v
    using that unfolding nik_checked_iff pat by blast
  have inv: "list_all (served_checked nik_checked) evs \<and> displayed_record nik_checked w \<longrightarrow>
      displayed_record nik_checked (run url evs w)"
    using run_displayed_record [of nik_checked evs w url] by blast
  have shown: "list_all (served_checked nik_checked) evs \<and> truthy (ktpData (app (run url evs initial_world))) \<longrightarrow>
      (\<exists>s. get_opt (ktpData (app (run url evs initial_world))) ''nik'' = JStr s \<and> length s = 16 \<and> list_all is_digit s
          \<and> full_match nik_pattern s)"
    using run_from_initial [of nik_checked evs url] chk by blast
  have api: "api_extract failure r = Fulfilled resp \<longrightarrow>
      resp = \<lparr>status = 200, data = JObj [(''ktp_data'', r)]\<rparr>
      \<and> (\<exists>s. get_opt r ''nik'' = JStr s \<and> length s = 16 \<and> list_all is_digit s
          \<and> full_match nik_pattern s)"
    using api_extract_Fulfilled [of failure r resp] chk [of r]
    by (auto simp: field_validation_def)
  show ?thesis
    by (intro conjI) (rule inv shown api api_extract_checked nik_checked_iff pat)+
qed

theorem displayed_nik_has_16_digits_witness:
  "list_all (served_checked nik_checked)
       [Upload \<lparr>name_f = ''ktp.jpg'', type_f = ''image/jpeg'', size_f = 13\<rparr>,
        UploadSettled (Fulfilled \<lparr>status = 200, data = JNull\<rparr>),
        ExtractSettled
          (api_extract \<lparr>message = ''Request failed with status code 422'', response = None\<rparr>
             (js_of_KTPData (mockKTPData\<lparr>birth_date := ''25-04-1990''\<rparr>)))]
   \<and> displayed_record nik_checked initial_world
   \<and> displayed_record nik_checked (run ''/api''
       [Upload \<lparr>name_f = ''ktp.jpg'', type_f = ''image/jpeg'', size_f = 13\<rparr>,
        UploadSettled (Fulfilled \<lparr>status = 200, data = JNull\<rparr>),
        ExtractSettled
          (api_extract \<lparr>message = ''Request failed with status code 422'', response = None\<rparr>
             (js_of_KTPData (mockKTPData\<lparr>birth_date := ''25-04-1990''\<rparr>)))]
       initial_world)
   \<and> ktpData (app (run ''/api''
       [Upload \<lparr>name_f = ''ktp.jpg'', type_f = ''image/jpeg'', size_f = 13\<rparr>,
        UploadSettled (Fulfilled \<lparr>status = 200, data = JNull\<rparr>),
        ExtractSettled
          (api_extract \<lparr>message = ''Request failed with status code 422'', response = None\<rparr>
             (js_of_KTPData (mockKTPData\<lparr>birth_date := ''25-04-1990''\<rparr>)))]
       initial_world)) = js_of_KTPData (mockKTPData\<lparr>birth_date := ''25-04-1990''\<rparr>)
   \<and> truthy (ktpData (app (run ''/api''
       [Upload \<lparr>name_f = ''ktp.jpg'', type_f = ''image/jpeg'', size_f = 13\<rparr>,
        UploadSettled (Fulfilled \<lparr>status = 200, data = JNull\<rparr>),
        ExtractSettled
          (api_extract \<lparr>message = ''Request failed with status code 422'', response = None\<rparr>
             (js_of_KTPData (mockKTPData\<lparr>birth_date := ''25-04-1990''\<rparr>)))]
       initial_world)))
   \<and> get_opt (ktpData (app (run ''/api''
       [Upload \<lparr>name_f = ''ktp.jpg'', type_f = ''image/jpeg'', size_f = 13\<rparr>,
        UploadSettled (Fulfilled \<lparr>status = 200, data = JNull\<rparr>),
        ExtractSettled
          (api_extract \<lparr>message = ''Request failed with status code 422'', response = None\<rparr>
             (js_of_KTPData (mockKTPData\<lparr>birth_date := ''25-04-1990''\<rparr>)))]
       initial_world))) ''nik'' = JStr ''3173042504900001''
   \<and> length ''3173042504900001'' = 16 \<and> list_all is_digit ''3173042504900001''
   \<and> api_extract \<lparr>message = ''Request failed with status code 422'', response = None\<rparr>
       (js_of_KTPData (mockKTPData\<lparr>birth_date := ''25-04-1990''\<rparr>)) =
     Fulfilled \<lparr>status = 200,
                 data = JObj [(''ktp_data'', js_of_KTPData (mockKTPData\<lparr>birth_date := ''25-04-1990''\<rparr>))]\<rparr>"
proof -
  note T = displayed_nik_has_16_digits
    [where evs = "[Upload \<lparr>name_f = ''ktp.jpg'', type_f = ''image/jpeg'', size_f = 13\<rparr>,
        UploadSettled (Fulfilled \<lparr>status = 200, data = JNull\<rparr>),
        ExtractSettled
          (api_extract \<lparr>message = ''Request failed with status code 422'', response = None\<rparr>
             (js_of_KTPData (mockKTPData\<lparr>birth_date := ''25-04-1990''\<rparr>)))]"
       and url = "''/api''" and w = initial_world
       and r = "js_of_KTPData (mockKTPData\<lparr>birth_date := ''25-04-1990''\<rparr>)"
       and resp = "\<lparr>status = 200,
                 data = JObj [(''ktp_data'', js_of_KTPData (mockKTPData\<lparr>birth_date := ''25-04-1990''\<rparr>))]\<rparr>"
       and failure = "\<lparr>message = ''Request failed with status code 422'', response = None\<rparr>"]
  note R = run_of_validated_record
  have c: "nik_checked (js_of_KTPData (mockKTPData\<lparr>birth_date := ''25-04-1990''\<rparr>))"
    using validated_record by (simp add: field_validation_def)
  have a: "list_all (served_checked nik_checked)
       [Upload \<lparr>name_f = ''ktp.jpg'', type_f = ''image/jpeg'', size_f = 13\<rparr>,
        UploadSettled (Fulfilled \<lparr>status = 200, data = JNull\<rparr>),
        ExtractSettled
          (api_extract \<lparr>message = ''Request failed with status code 422'', response = None\<rparr>
             (js_of_KTPData (mockKTPData\<lparr>birth_date := ''25-04-1990''\<rparr>)))]"
    unfolding R(4) by (rule c)
  have i: "displayed_record nik_checked initial_world" by (rule R(5))
  have t: "truthy (ktpData (app (run ''/api''
       [Upload \<lparr>name_f = ''ktp.jpg'', type_f = ''image/jpeg'', size_f = 13\<rparr>,
        UploadSettled (Fulfilled \<lparr>status = 200, data = JNull\<rparr>),
        ExtractSettled
          (api_extract \<lparr>message = ''Request failed with status code 422'', response = None\<rparr>
             (js_of_KTPData (mockKTPData\<lparr>birth_date := ''25-04-1990''\<rparr>)))]
       initial_world)))"
    unfolding R(2) by (rule R(3))
  from T a i have d: "displayed_record nik_checked (run ''/api''
       [Upload \<lparr>name_f = ''ktp.jpg'', type_f = ''image/jpeg'', size_f = 13\<rparr>,
        UploadSettled (Fulfilled \<lparr>status = 200, data = JNull\<rparr>),
        ExtractSettled
          (api_extract \<lparr>message = ''Request failed with status code 422'', response = None\<rparr>
             (js_of_KTPData (mockKTPData\<lparr>birth_date := ''25-04-1990''\<rparr>)))]
       initial_world)"
    by blast
  from T a t obtain s where
    s: "get_opt (ktpData (app (run ''/api''
       [Upload \<lparr>name_f = ''ktp.jpg'', type_f = ''image/jpeg'', size_f = 13\<rparr>,
        UploadSettled (Fulfilled \<lparr>status = 200, data = JNull\<rparr>),
        ExtractSettled
          (api_extract \<lparr>message = ''Request failed with status code 422'', response = None\<rparr>
             (js_of_KTPData (mockKTPData\<lparr>birth_date := ''25-04-1990''\<rparr>)))]
       initial_world))) ''nik'' = JStr s" "length s = 16" "list_all is_digit s"
    by blast
  have n: "get_opt (ktpData (app (run ''/api''
       [Upload \<lparr>name_f = ''ktp.jpg'', type_f = ''image/jpeg'', size_f = 13\<rparr>,
        UploadSettled (Fulfilled \<lparr>status = 200, data = JNull\<rparr>),
        ExtractSettled
          (api_extract \<lparr>message = ''Request failed with status code 422'', response = None\<rparr>
             (js_of_KTPData (mockKTPData\<lparr>birth_date := ''25-04-1990''\<rparr>)))]
       initial_world))) ''nik'' = JStr ''3173042504900001''"
    unfolding R(2) by (simp add: properties_of_KTPData mockKTPData_def)
  from s n have l: "length ''3173042504900001'' = 16 \<and> list_all is_digit ''3173042504900001''"
    by simp
  from a i d R(2) t n l R(1) show ?thesis by (intro conjI) blast+
qed

text \<open>
  C5, as the code has it. \<open>KTPDisplay\<close> shows any \<open>birth_date\<close> that is a non-empty string
  unchanged under \<open>Tanggal Lahir\<close>, whatever its format. DD-MM-YYYY holds for the records
  of the extract endpoint, by the field validation modelled from the specification, and
  so for every record that reaches the display through \<open>handleUpload\<close> from that
  endpoint.
\<close>

theorem birth_date_shown_as_received:
  "(get_opt obj ''birth_date'' = JStr b \<and> b \<noteq> [] \<longrightarrow>
      \<lparr>key_r = ''birth_date'', label_r = ''Tanggal Lahir'', value_r = JStr b,
       background = ''bg-white''\<rparr> \<in> set (KTPDisplay_rows obj))
   \<and> (birth_date d \<noteq> [] \<longrightarrow>
      \<lparr>key_r = ''birth_date'', label_r = ''Tanggal Lahir'', value_r = JStr (birth_date d),
       background = ''bg-white''\<rparr> \<in> set (KTPDisplay_rows (js_of_KTPData d)))
   \<and> (list_all (served_checked birth_date_checked) evs \<and> displayed_record birth_date_checked w
        \<longrightarrow> displayed_record birth_date_checked (run url evs w))
   \<and> (list_all (served_checked birth_date_checked) evs \<and> truthy (ktpData (app (run url evs initial_world))) \<longrightarrow>
      (\<exists>s. get_opt (ktpData (app (run url evs initial_world))) ''birth_date'' = JStr s \<and> full_match birth_date_pattern s))
   \<and> served_checked birth_date_checked (ExtractSettled (api_extract failure r))
   \<and> (api_extract failure r = Fulfilled resp \<longrightarrow>
      resp = \<lparr>status = 200, data = JObj [(''ktp_data'', r)]\<rparr>
      \<and> (\<exists>s. get_opt r ''birth_date'' = JStr s \<and> full_match birth_date_pattern s))"
proof -
  have row: "get_opt obj ''birth_date'' = JStr b \<and> b \<noteq> [] \<longrightarrow>
      \<lparr>key_r = ''birth_date'', label_r = ''Tanggal Lahir'', value_r = JStr b,
       background = ''bg-white''\<rparr> \<in> set (KTPDisplay_rows obj)"
    using birth_date_row [of obj b] by blast
  have typed: "birth_date d \<noteq> [] \<longrightarrow>
      \<lparr>key_r = ''birth_date'', label_r = ''Tanggal Lahir'', value_r = JStr (birth_date d),
       background = ''bg-white''\<rparr> \<in> set (KTPDisplay_rows (js_of_KTPData d))"
    using birth_date_row [of "js_of_KTPData d" "birth_date d"]
    by (simp add: properties_of_KTPData)
  have inv: "list_all (served_checked birth_date_checked) evs \<and> displayed_record birth_date_checked w
        \<longrightarrow> displayed_record birth_date_checked (run url evs w)"
    using run_displayed_record [of birth_date_checked evs w url] by blast
  have shown: "list_all (served_checked birth_date_checked) evs \<and> truthy (ktpData (app (run url evs initial_world))) \<longrightarrow>
      (\<exists>s. get_opt (ktpData (app (run url evs initial_world))) ''birth_date'' = JStr s \<and> full_match birth_date_pattern s)"
    using run_from_initial [of birth_date_checked evs url]
    unfolding birth_date_checked_iff by blast
  have api: "api_extract failure r = Fulfilled resp \<longrightarrow>
      resp = \<lparr>status = 200, data = JObj [(''ktp_data'', r)]\<rparr>
      \<and> (\<exists>s. get_opt r ''birth_date'' = JStr s \<and> full_match birth_date_pattern s)"
    using api_extract_Fulfilled [of failure r resp]
    by (auto simp: field_validation_def birth_date_checked_iff)
  show ?thesis
    by (intro conjI) (rule row typed inv shown api api_extract_checked)+
qed

theorem birth_date_shown_as_received_witness:
  "birth_date mockKTPData \<noteq> []
   \<and> \<lparr>key_r = ''birth_date'', label_r = ''Tanggal Lahir'', value_r = JStr (birth_date mockKTPData),
       background = ''bg-white''\<rparr> \<in> set (KTPDisplay_rows (js_of_KTPData mockKTPData))
   \<and> list_all (served_checked birth_date_checked)
       [Upload \<lparr>name_f = ''ktp.jpg'', type_f = ''image/jpeg'', size_f = 13\<rparr>,
        UploadSettled (Fulfilled \<lparr>status = 200, data = JNull\<rparr>),
        ExtractSettled
          (api_extract \<lparr>message = ''Request failed with status code 422'', response = None\<rparr>
             (js_of_KTPData (mockKTPData\<lparr>birth_date := ''25-04-1990''\<rparr>)))]
   \<and> displayed_record birth_date_checked initial_world
   \<and> displayed_record birth_date_checked (run ''/api''
       [Upload \<lparr>name_f = ''ktp.jpg'', type_f = ''image/jpeg'', size_f = 13\<rparr>,
        UploadSettled (Fulfilled \<lparr>status = 200, data = JNull\<rparr>),
        ExtractSettled
          (api_extract \<lparr>message = ''Request failed with status code 422'', response = None\<rparr>
             (js_of_KTPData (mockKTPData\<lparr>birth_date := ''25-04-1990''\<rparr>)))]
       initial_world)
   \<and> ktpData (app (run ''/api''
       [Upload \<lparr>name_f = ''ktp.jpg'', type_f = ''image/jpeg'', size_f = 13\<rparr>,
        UploadSettled (Fulfilled \<lparr>status = 200, data = JNull\<rparr>),
        ExtractSettled
          (api_extract \<lparr>message = ''Request failed with status code 422'', response = None\<rparr>
             (js_of_KTPData (mockKTPData\<lparr>birth_date := ''25-04-1990''\<rparr>)))]
       initial_world)) = js_of_KTPData (mockKTPData\<lparr>birth_date := ''25-04-1990''\<rparr>)
   \<and> truthy (ktpData (app (run ''/api''
       [Upload \<lparr>name_f = ''ktp.jpg'', type_f = ''image/jpeg'', size_f = 13\<rparr>,
        UploadSettled (Fulfilled \<lparr>status = 200, data = JNull\<rparr>),
        ExtractSettled
          (api_extract \<lparr>message = ''Request failed with status code 422'', response = None\<rparr>
             (js_of_KTPData (mockKTPData\<lparr>birth_date := ''25-04-1990''\<rparr>)))]
       initial_world)))
   \<and> get_opt (ktpData (app (run ''/api''
       [Upload \<lparr>name_f = ''ktp.jpg'', type_f = ''image/jpeg'', size_f = 13\<rparr>,
        UploadSettled (Fulfilled \<lparr>status = 200, data = JNull\<rparr>),
        ExtractSettled
          (api_extract \<lparr>message = ''Request failed with status code 422'', response = None\<rparr>
             (js_of_KTPData (mockKTPData\<lparr>birth_date := ''25-04-1990''\<rparr>)))]
       initial_world))) ''birth_date'' = JStr ''25-04-1990''
   \<and> full_match birth_date_pattern ''25-04-1990''
   \<and> api_extract \<lparr>message = ''Request failed with status code 422'', response = None\<rparr>
       (js_of_KTPData (mockKTPData\<lparr>birth_date := ''25-04-1990''\<rparr>)) =
     Fulfilled \<lparr>status = 200,
                 data = JObj [(''ktp_data'', js_of_KTPData (mockKTPData\<lparr>birth_date := ''25-04-1990''\<rparr>))]\<rparr>"
proof -
  note T = birth_date_shown_as_received
    [where evs = "[Upload \<lparr>name_f = ''ktp.jpg'', type_f = ''image/jpeg'', size_f = 13\<rparr>,
        UploadSettled (Fulfilled \<lparr>status = 200, data = JNull\<rparr>),
        ExtractSettled
          (api_extract \<lparr>message = ''Request failed with status code 422'', response = None\<rparr>
             (js_of_KTPData (mockKTPData\<lparr>birth_date := ''25-04-1990''\<rparr>)))]"
       and url = "''/api''" and w = initial_world and d = mockKTPData
       and obj = "js_of_KTPData mockKTPData" and b = "birth_date mockKTPData"
       and r = "js_of_KTPData (mockKTPData\<lparr>birth_date := ''25-04-1990''\<rparr>)"
       and resp = "\<lparr>status = 200,
                 data = JObj [(''ktp_data'', js_of_KTPData (mockKTPData\<lparr>birth_date := ''25-04-1990''\<rparr>))]\<rparr>"
       and failure = "\<lparr>message = ''Request failed with status code 422'', response = None\<rparr>"]
  note R = run_of_validated_record
  have b: "birth_date mockKTPData \<noteq> []"
    by (simp add: mockKTPData_def)
  have c: "birth_date_checked (js_of_KTPData (mockKTPData\<lparr>birth_date := ''25-04-1990''\<rparr>))"
    using validated_record by (simp add: field_validation_def)
  have a: "list_all (served_checked birth_date_checked)
       [Upload \<lparr>name_f = ''ktp.jpg'', type_f = ''image/jpeg'', size_f = 13\<rparr>,
        UploadSettled (Fulfilled \<lparr>status = 200, data = JNull\<rparr>),
        ExtractSettled
          (api_extract \<lparr>message = ''Request failed with status code 422'', response = None\<rparr>
             (js_of_KTPData (mockKTPData\<lparr>birth_date := ''25-04-1990''\<rparr>)))]"
    unfolding R(4) by (rule c)
  have i: "displayed_record birth_date_checked initial_world" by (rule R(5))
  have t: "truthy (ktpData (app (run ''/api''
       [Upload \<lparr>name_f = ''ktp.jpg'', type_f = ''image/jpeg'', size_f = 13\<rparr>,
        UploadSettled (Fulfilled \<lparr>status = 200, data = JNull\<rparr>),
        ExtractSettled
          (api_extract \<lparr>message = ''Request failed with status code 422'', response = None\<rparr>
             (js_of_KTPData (mockKTPData\<lparr>birth_date := ''25-04-1990''\<rparr>)))]
       initial_world)))"
    unfolding R(2) by (rule R(3))
  from T b have row: "\<lparr>key_r = ''birth_date'', label_r = ''Tanggal Lahir'', value_r = JStr (birth_date mockKTPData),
       background = ''bg-white''\<rparr> \<in> set (KTPDisplay_rows (js_of_KTPData mockKTPData))"
    by blast
  from T a i have d: "displayed_record birth_date_checked (run ''/api''
       [Upload \<lparr>name_f = ''ktp.jpg'', type_f = ''image/jpeg'', size_f = 13\<rparr>,
        UploadSettled (Fulfilled \<lparr>status = 200, data = JNull\<rparr>),
        ExtractSettled
          (api_extract \<lparr>message = ''Request failed with status code 422'', response = None\<rparr>
             (js_of_KTPData (mockKTPData\<lparr>birth_date := ''25-04-1990''\<rparr>)))]
       initial_world)"
    by blast
  from T a t obtain s where
    s: "get_opt (ktpData (app (run ''/api''
       [Upload \<lparr>name_f = ''ktp.jpg'', type_f = ''image/jpeg'', size_f = 13\<rparr>,
        UploadSettled (Fulfilled \<lparr>status = 200, data = JNull\<rparr>),
        ExtractSettled
          (api_extract \<lparr>message = ''Request failed with status code 422'', response = None\<rparr>
             (js_of_KTPData (mockKTPData\<lparr>birth_date := ''25-04-1990''\<rparr>)))]
       initial_world))) ''birth_date'' = JStr s" "full_match birth_date_pattern s"
    by blast
  have n: "get_opt (ktpData (app (run ''/api''
       [Upload \<lparr>name_f = ''ktp.jpg'', type_f = ''image/jpeg'', size_f = 13\<rparr>,
        UploadSettled (Fulfilled \<lparr>status = 200, data = JNull\<rparr>),
        ExtractSettled
          (api_extract \<lparr>message = ''Request failed with status code 422'', response = None\<rparr>
             (js_of_KTPData (mockKTPData\<lparr>birth_date := ''25-04-1990''\<rparr>)))]
       initial_world))) ''birth_date'' = JStr ''25-04-1990''"
    unfolding R(2) by (simp add: properties_of_KTPData)
  from s n have l: "full_match birth_date_pattern ''25-04-1990''"
    by simp
  from b row a i d R(2) t n l R(1) show ?thesis by (intro conjI) blast+
qed

text \<open>
  C5 as worded fails on the record of the component's own test: its \<open>birth_date\<close> is
  \<open>1990-04-25\<close>, the year first, and \<open>KTPDisplay\<close> shows it.
\<close>

theorem test_record_birth_date_counterexample:
  "main_view_of \<lparr>ktpData = js_of_KTPData mockKTPData, loading = False, error = JNull,
                  imagePreview = None\<rparr>
     = KTPDisplay_view (KTPDisplay_rows (js_of_KTPData mockKTPData))
   \<and> \<lparr>key_r = ''birth_date'', label_r = ''Tanggal Lahir'', value_r = JStr ''1990-04-25'',
       background = ''bg-white''\<rparr> \<in> set (KTPDisplay_rows (js_of_KTPData mockKTPData))
   \<and> birth_date mockKTPData = ''1990-04-25''
   \<and> \<not> full_match birth_date_pattern (birth_date mockKTPData)"
proof -
  have v: "main_view_of \<lparr>ktpData = js_of_KTPData mockKTPData, loading = False, error = JNull,
                  imagePreview = None\<rparr>
     = KTPDisplay_view (KTPDisplay_rows (js_of_KTPData mockKTPData))"
    using typed_rows_drawable [of mockKTPData]
    by (simp add: main_view_of_def KTPDisplay_def js_of_KTPData_def)
  have b: "birth_date mockKTPData = ''1990-04-25''"
    by (simp add: mockKTPData_def)
  have n: "\<not> full_match birth_date_pattern (birth_date mockKTPData)"
    by (simp add: mockKTPData_def birth_date_pattern_def is_digit_def)
  have g: "get_opt (js_of_KTPData mockKTPData) ''birth_date'' = JStr ''1990-04-25''"
    by (simp add: properties_of_KTPData b)
  have "''1990-04-25'' \<noteq> []" by simp
  from birth_date_row [OF g this] have
    r: "\<lparr>key_r = ''birth_date'', label_r = ''Tanggal Lahir'', value_r = JStr ''1990-04-25'',
       background = ''bg-white''\<rparr> \<in> set (KTPDisplay_rows (js_of_KTPData mockKTPData))" .
  from v r b n show ?thesis by (intro conjI)
qed

section \<open>Properties of the record type\<close>

text \<open>
  C6, against the field validation modelled from the specification. The type \<open>Gender\<close>
  has exactly the two members \<open>LAKI-LAKI\<close> and \<open>PEREMPUAN\<close>, and a record of type
  \<open>KTPData\<close> carries one of them as its \<open>gender\<close>. The type is gone at run time, where
  \<open>handleUpload\<close> stores the \<open>ktp_data\<close> of the response unchecked; there the two values
  come from the extract endpoint, whose records have passed the enum check. So in every
  sequence of events whose extract responses passed that check, the record on display,
  if there is one, has as its \<open>gender\<close> one of the two literal strings.
\<close>

theorem displayed_gender_is_one_of_two_literals:
  "(list_all (served_checked gender_checked) evs \<and> displayed_record gender_checked w \<longrightarrow>
      displayed_record gender_checked (run url evs w))
   \<and> (list_all (served_checked gender_checked) evs \<and> truthy (ktpData (app (run url evs initial_world))) \<longrightarrow>
      (get_opt (ktpData (app (run url evs initial_world))) ''gender'' = JStr ''LAKI-LAKI''
          \<or> get_opt (ktpData (app (run url evs initial_world))) ''gender'' = JStr ''PEREMPUAN''))
   \<and> served_checked gender_checked (ExtractSettled (api_extract failure r))
   \<and> (api_extract failure r = Fulfilled resp \<longrightarrow>
      resp = \<lparr>status = 200, data = JObj [(''ktp_data'', r)]\<rparr>
      \<and> (get_opt r ''gender'' = JStr ''LAKI-LAKI''
          \<or> get_opt r ''gender'' = JStr ''PEREMPUAN''))
   \<and> get_opt (js_of_KTPData d) ''gender'' = JStr (Gender_literal (gender d))
   \<and> gender_checked (js_of_KTPData d)
   \<and> (Gender_literal g = ''LAKI-LAKI'') = (g = LAKI_LAKI)
   \<and> (Gender_literal g = ''PEREMPUAN'') = (g = PEREMPUAN)
   \<and> (g = LAKI_LAKI) = (g \<noteq> PEREMPUAN)"
proof -
  have inv: "list_all (served_checked gender_checked) evs \<and> displayed_record gender_checked w \<longrightarrow>
      displayed_record gender_checked (run url evs w)"
    using run_displayed_record [of gender_checked evs w url] by blast
  have shown: "list_all (served_checked gender_checked) evs \<and> truthy (ktpData (app (run url evs initial_world))) \<longrightarrow>
      (get_opt (ktpData (app (run url evs initial_world))) ''gender'' = JStr ''LAKI-LAKI''
          \<or> get_opt (ktpData (app (run url evs initial_world))) ''gender'' = JStr ''PEREMPUAN'')"
    using run_from_initial [of gender_checked evs url]
    unfolding gender_checked_def by blast
  have api: "api_extract failure r = Fulfilled resp \<longrightarrow>
      resp = \<lparr>status = 200, data = JObj [(''ktp_data'', r)]\<rparr>
      \<and> (get_opt r ''gender'' = JStr ''LAKI-LAKI''
          \<or> get_opt r ''gender'' = JStr ''PEREMPUAN'')"
    using api_extract_Fulfilled [of failure r resp]
    by (auto simp: field_validation_def gender_checked_def)
  have gen: "get_opt (js_of_KTPData d) ''gender'' = JStr (Gender_literal (gender d))"
    by (rule properties_of_KTPData)
  have typed: "gender_checked (js_of_KTPData d)"
    unfolding gender_checked_def gen by (cases "gender d") simp_all
  have lit: "(Gender_literal g = ''LAKI-LAKI'') = (g = LAKI_LAKI)"
    "(Gender_literal g = ''PEREMPUAN'') = (g = PEREMPUAN)"
    "(g = LAKI_LAKI) = (g \<noteq> PEREMPUAN)"
    by (cases g; simp)+
  show ?thesis
    by (intro conjI) (rule inv shown api api_extract_checked gen typed lit)+
qed

theorem displayed_gender_is_one_of_two_literals_witness:
  "list_all (served_checked gender_checked)
       [Upload \<lparr>name_f = ''ktp.jpg'', type_f = ''image/jpeg'', size_f = 13\<rparr>,
        UploadSettled (Fulfilled \<lparr>status = 200, data = JNull\<rparr>),
        ExtractSettled
          (api_extract \<lparr>message = ''Request failed with status code 422'', response = None\<rparr>
             (js_of_KTPData (mockKTPData\<lparr>birth_date := ''25-04-1990''\<rparr>)))]
   \<and> displayed_record gender_checked initial_world
   \<and> displayed_record gender_checked (run ''/api''
       [Upload \<lparr>name_f = ''ktp.jpg'', type_f = ''image/jpeg'', size_f = 13\<rparr>,
        UploadSettled (Fulfilled \<lparr>status = 200, data = JNull\<rparr>),
        ExtractSettled
          (api_extract \<lparr>message = ''Request failed with status code 422'', response = None\<rparr>
             (js_of_KTPData (mockKTPData\<lparr>birth_date := ''25-04-1990''\<rparr>)))]
       initial_world)
   \<and> ktpData (app (run ''/api''
       [Upload \<lparr>name_f = ''ktp.jpg'', type_f = ''image/jpeg'', size_f = 13\<rparr>,
        UploadSettled (Fulfilled \<lparr>status = 200, data = JNull\<rparr>),
        ExtractSettled
          (api_extract \<lparr>message = ''Request failed with status code 422'', response = None\<rparr>
             (js_of_KTPData (mockKTPData\<lparr>birth_date := ''25-04-1990''\<rparr>)))]
       initial_world)) = js_of_KTPData (mockKTPData\<lparr>birth_date := ''25-04-1990''\<rparr>)
   \<and> truthy (ktpData (app (run ''/api''
       [Upload \<lparr>name_f = ''ktp.jpg'', type_f = ''image/jpeg'', size_f = 13\<rparr>,
        UploadSettled (Fulfilled \<lparr>status = 200, data = JNull\<rparr>),
        ExtractSettled
          (api_extract \<lparr>message = ''Request failed with status code 422'', response = None\<rparr>
             (js_of_KTPData (mockKTPData\<lparr>birth_date := ''25-04-1990''\<rparr>)))]
       initial_world)))
   \<and> get_opt (ktpData (app (run ''/api''
       [Upload \<lparr>name_f = ''ktp.jpg'', type_f = ''image/jpeg'', size_f = 13\<rparr>,
        UploadSettled (Fulfilled \<lparr>status = 200, data = JNull\<rparr>),
        ExtractSettled
          (api_extract \<lparr>message = ''Request failed with status code 422'', response = None\<rparr>
             (js_of_KTPData (mockKTPData\<lparr>birth_date := ''25-04-1990''\<rparr>)))]
       initial_world))) ''gender'' = JStr ''LAKI-LAKI''
   \<and> api_extract \<lparr>message = ''Request failed with status code 422'', response = None\<rparr>
       (js_of_KTPData (mockKTPData\<lparr>birth_date := ''25-04-1990''\<rparr>)) =
     Fulfilled \<lparr>status = 200,
                 data = JObj [(''ktp_data'', js_of_KTPData (mockKTPData\<lparr>birth_date := ''25-04-1990''\<rparr>))]\<rparr>"
proof -
  note T = displayed_gender_is_one_of_two_literals
    [where evs = "[Upload \<lparr>name_f = ''ktp.jpg'', type_f = ''image/jpeg'', size_f = 13\<rparr>,
        UploadSettled (Fulfilled \<lparr>status = 200, data = JNull\<rparr>),
        ExtractSettled
          (api_extract \<lparr>message = ''Request failed with status code 422'', response = None\<rparr>
             (js_of_KTPData (mockKTPData\<lparr>birth_date := ''25-04-1990''\<rparr>)))]"
       and url = "''/api''" and w = initial_world
       and r = "js_of_KTPData (mockKTPData\<lparr>birth_date := ''25-04-1990''\<rparr>)"
       and resp = "\<lparr>status = 200,
                 data = JObj [(''ktp_data'', js_of_KTPData (mockKTPData\<lparr>birth_date := ''25-04-1990''\<rparr>))]\<rparr>"
       and failure = "\<lparr>message = ''Request failed with status code 422'', response = None\<rparr>"]
  note R = run_of_validated_record
  have c: "gender_checked (js_of_KTPData (mockKTPData\<lparr>birth_date := ''25-04-1990''\<rparr>))"
    using validated_record by (simp add: field_validation_def)
  have a: "list_all (served_checked gender_checked)
       [Upload \<lparr>name_f = ''ktp.jpg'', type_f = ''image/jpeg'', size_f = 13\<rparr>,
        UploadSettled (Fulfilled \<lparr>status = 200, data = JNull\<rparr>),
        ExtractSettled
          (api_extract \<lparr>message = ''Request failed with status code 422'', response = None\<rparr>
             (js_of_KTPData (mockKTPData\<lparr>birth_date := ''25-04-1990''\<rparr>)))]"
    unfolding R(4) by (rule c)
  have i: "displayed_record gender_checked initial_world" by (rule R(5))
  have t: "truthy (ktpData (app (run ''/api''
       [Upload \<lparr>name_f = ''ktp.jpg'', type_f = ''image/jpeg'', size_f = 13\<rparr>,
        UploadSettled (Fulfilled \<lparr>status = 200, data = JNull\<rparr>),
        ExtractSettled
          (api_extract \<lparr>message = ''Request failed with status code 422'', response = None\<rparr>
             (js_of_KTPData (mockKTPData\<lparr>birth_date := ''25-04-1990''\<rparr>)))]
       initial_world)))"
    unfolding R(2) by (rule R(3))
  from T a i have d: "displayed_record gender_checked (run ''/api''
       [Upload \<lparr>name_f = ''ktp.jpg'', type_f = ''image/jpeg'', size_f = 13\<rparr>,
        UploadSettled (Fulfilled \<lparr>status = 200, data = JNull\<rparr>),
        ExtractSettled
          (api_extract \<lparr>message = ''Request failed with status code 422'', response = None\<rparr>
             (js_of_KTPData (mockKTPData\<lparr>birth_date := ''25-04-1990''\<rparr>)))]
       initial_world)"
    by blast
  from T a t have two: "(get_opt (ktpData (app (run ''/api''
       [Upload \<lparr>name_f = ''ktp.jpg'', type_f = ''image/jpeg'', size_f = 13\<rparr>,
        UploadSettled (Fulfilled \<lparr>status = 200, data = JNull\<rparr>),
        ExtractSettled
          (api_extract \<lparr>message = ''Request failed with status code 422'', response = None\<rparr>
             (js_of_KTPData (mockKTPData\<lparr>birth_date := ''25-04-1990''\<rparr>)))]
       initial_world))) ''gender'' = JStr ''LAKI-LAKI''
          \<or> get_opt (ktpData (app (run ''/api''
       [Upload \<lparr>name_f = ''ktp.jpg'', type_f = ''image/jpeg'', size_f = 13\<rparr>,
        UploadSettled (Fulfilled \<lparr>status = 200, data = JNull\<rparr>),
        ExtractSettled
          (api_extract \<lparr>message = ''Request failed with status code 422'', response = None\<rparr>
             (js_of_KTPData (mockKTPData\<lparr>birth_date := ''25-04-1990''\<rparr>)))]
       initial_world))) ''gender'' = JStr ''PEREMPUAN'')"
    by blast
  have p: "get_opt (ktpData (app (run ''/api''
       [Upload \<lparr>name_f = ''ktp.jpg'', type_f = ''image/jpeg'', size_f = 13\<rparr>,
        UploadSettled (Fulfilled \<lparr>status = 200, data = JNull\<rparr>),
        ExtractSettled
          (api_extract \<lparr>message = ''Request failed with status code 422'', response = None\<rparr>
             (js_of_KTPData (mockKTPData\<lparr>birth_date := ''25-04-1990''\<rparr>)))]
       initial_world))) ''gender'' \<noteq> JStr ''PEREMPUAN''"
    unfolding R(2) by (simp add: properties_of_KTPData mockKTPData_def)
  from two p have n: "get_opt (ktpData (app (run ''/api''
       [Upload \<lparr>name_f = ''ktp.jpg'', type_f = ''image/jpeg'', size_f = 13\<rparr>,
        UploadSettled (Fulfilled \<lparr>status = 200, data = JNull\<rparr>),
        ExtractSettled
          (api_extract \<lparr>message = ''Request failed with status code 422'', response = None\<rparr>
             (js_of_KTPData (mockKTPData\<lparr>birth_date := ''25-04-1990''\<rparr>)))]
       initial_world))) ''gender'' = JStr ''LAKI-LAKI''"
    by blast
  from a i d R(2) t n R(1) show ?thesis by (intro conjI) blast+
qed

section \<open>Properties of the error boundary\<close>

text \<open>
  C10. When the children throw an error while the boundary shows them, in the first
  state or any other without a caught error, the boundary ends the pass in the state
  derived from that error and shows the fallback with the error's message, or
  \<open>Something went wrong\<close> for an empty message. \<open>Try again\<close>
  resets the state to \<open>hasError = false\<close>, \<open>error = null\<close>, after which \<open>render\<close> returns
  the children again. A boundary that has caught nothing returns its children unchanged
  and shows what they draw.
\<close>

theorem ErrorBoundary_fallback_and_retry:
  "(draw children = Inl e \<longrightarrow>
      render_pass \<lparr>hasError = False, error_b = eb\<rparr> children draw =
        (\<lparr>hasError = True, error_b = Some e\<rparr>,
         Some (ShowsFallback
                (if message e = [] then ''Something went wrong'' else message e)))
      \<and> render_pass initial_State children draw =
        (\<lparr>hasError = True, error_b = Some e\<rparr>,
         Some (ShowsFallback
                (if message e = [] then ''Something went wrong'' else message e))))
   \<and> render (getDerivedStateFromError e) children =
       Fallback (if message e = [] then ''Something went wrong'' else message e)
   \<and> try_again s = \<lparr>hasError = False, error_b = None\<rparr>
   \<and> render (try_again s) children = Children children
   \<and> render initial_State children = Children children
   \<and> render \<lparr>hasError = False, error_b = eb\<rparr> children = Children children
   \<and> (draw children = Inr v \<longrightarrow>
        render_pass (try_again s) children draw = (try_again s, Some (Shows v))
        \<and> render_pass initial_State children draw = (initial_State, Some (Shows v)))"
  by (simp add: render_pass_def show_once_def render_def fallback_text_def try_again_def
      initial_State_def getDerivedStateFromError_def)

theorem ErrorBoundary_fallback_and_retry_witness:
  "(\<lambda>c::nat. (Inl \<lparr>message = ''Test error''\<rparr> :: Error + string)) 0 = Inl \<lparr>message = ''Test error''\<rparr>
   \<and> render_pass initial_State (0::nat) (\<lambda>c. (Inl \<lparr>message = ''Test error''\<rparr> :: Error + string)) =
       (\<lparr>hasError = True, error_b = Some \<lparr>message = ''Test error''\<rparr>\<rparr>,
        Some (ShowsFallback ''Test error''))
   \<and> (\<lambda>c::nat. (Inr ''Normal content'' :: Error + string)) 0 = Inr ''Normal content''
   \<and> render_pass (try_again \<lparr>hasError = True, error_b = Some \<lparr>message = ''Test error''\<rparr>\<rparr>)
        (0::nat) (\<lambda>c. (Inr ''Normal content'' :: Error + string)) =
       (\<lparr>hasError = False, error_b = None\<rparr>, Some (Shows ''Normal content''))"
  using ErrorBoundary_fallback_and_retry
    [where draw = "\<lambda>c::nat. (Inl \<lparr>message = ''Test error''\<rparr> :: Error + string)"
       and children = 0 and e = "\<lparr>message = ''Test error''\<rparr>"
       and s = "\<lparr>hasError = True, error_b = Some \<lparr>message = ''Test error''\<rparr>\<rparr>"
       and eb = None]
    ErrorBoundary_fallback_and_retry
    [where draw = "\<lambda>c::nat. (Inr ''Normal content'' :: Error + string)"
       and children = 0 and e = "\<lparr>message = ''Test error''\<rparr>"
       and s = "\<lparr>hasError = True, error_b = Some \<lparr>message = ''Test error''\<rparr>\<rparr>"
       and eb = None and v = "''Normal content''"]
  by (simp add: try_again_def)

end
